theory Spec2Isabelle
  imports Complex_Main "HOL-Library.Log_Nat"
begin

section \<open>JavaScript numbers\<close>

text \<open>
  A JavaScript \<^verbatim>\<open>number\<close> is an IEEE 754 binary64 value. The finite ones are
  carried by their exact rational value; every arithmetic operation computes the exact
  rational result and rounds it to the nearest binary64 value, ties to even (\<open>fl\<close>).
  The sign of zero is not represented: no operation of this component can observe it
  (the only divisor that can be zero, \<^verbatim>\<open>n - p - 1\<close>, is \<open>+0\<close>).
\<close>

datatype jsnum = NaN | PInf | NInf | Fin rat

definition pow2 :: "int \<Rightarrow> rat" where
  "pow2 k = (if 0 \<le> k then 2 ^ nat k else 1 / 2 ^ nat (- k))"

text \<open>\<open>ilog2 t\<close> is the binary exponent of \<open>t > 0\<close>: \<open>2 ^ ilog2 t \<le> t < 2 ^ (ilog2 t + 1)\<close>.\<close>

definition ilog2 :: "rat \<Rightarrow> int" where
  "ilog2 t = (if 1 \<le> t then bitlen \<lfloor>t\<rfloor> - 1 else - bitlen (\<lceil>1 / t\<rceil> - 1))"

text \<open>Rounding to the nearest integer, ties to even.\<close>

definition rne :: "rat \<Rightarrow> int" where
  "rne t = (let f = \<lfloor>t\<rfloor>; d = t - of_int f
            in if d < 1 / 2 then f else if 1 / 2 < d then f + 1
               else if even f then f else f + 1)"

text \<open>
  Rounding a rational to binary64: 53 significant bits, exponents from \<open>-1022\<close> (below,
  the subnormal spacing \<open>2 ^ -1074\<close>) to \<open>1023\<close> (above, infinity). \<open>expo x\<close> is
  the exponent of the binade of \<open>x\<close>, \<open>quantum x\<close> the spacing of the binary64 values
  there, \<open>round_quantum x\<close> the nearest multiple of that spacing.
\<close>

definition expo :: "rat \<Rightarrow> int" where
  "expo x = max (ilog2 \<bar>x\<bar>) (- 1022)"

definition quantum :: "rat \<Rightarrow> rat" where
  "quantum x = pow2 (expo x - 52)"

definition round_quantum :: "rat \<Rightarrow> rat" where
  "round_quantum x = of_int (rne (x / quantum x)) * quantum x"

definition fl :: "rat \<Rightarrow> jsnum" where
  "fl x = (if x = 0 then Fin 0
           else if pow2 1024 \<le> \<bar>round_quantum x\<bar> then (if 0 < x then PInf else NInf)
           else Fin (round_quantum x))"

fun js_neg :: "jsnum \<Rightarrow> jsnum" where
  "js_neg NaN = NaN"
| "js_neg PInf = NInf"
| "js_neg NInf = PInf"
| "js_neg (Fin a) = Fin (- a)"

fun js_add :: "jsnum \<Rightarrow> jsnum \<Rightarrow> jsnum" where
  "js_add NaN y = NaN"
| "js_add x NaN = NaN"
| "js_add PInf NInf = NaN"
| "js_add NInf PInf = NaN"
| "js_add PInf y = PInf"
| "js_add NInf y = NInf"
| "js_add x PInf = PInf"
| "js_add x NInf = NInf"
| "js_add (Fin a) (Fin b) = fl (a + b)"

definition js_sub :: "jsnum \<Rightarrow> jsnum \<Rightarrow> jsnum" where
  "js_sub x y = js_add x (js_neg y)"

fun js_mul :: "jsnum \<Rightarrow> jsnum \<Rightarrow> jsnum" where
  "js_mul NaN y = NaN"
| "js_mul x NaN = NaN"
| "js_mul PInf PInf = PInf"
| "js_mul PInf NInf = NInf"
| "js_mul NInf PInf = NInf"
| "js_mul NInf NInf = PInf"
| "js_mul PInf (Fin b) = (if b = 0 then NaN else if 0 < b then PInf else NInf)"
| "js_mul NInf (Fin b) = (if b = 0 then NaN else if 0 < b then NInf else PInf)"
| "js_mul (Fin a) PInf = (if a = 0 then NaN else if 0 < a then PInf else NInf)"
| "js_mul (Fin a) NInf = (if a = 0 then NaN else if 0 < a then NInf else PInf)"
| "js_mul (Fin a) (Fin b) = fl (a * b)"

fun js_div :: "jsnum \<Rightarrow> jsnum \<Rightarrow> jsnum" where
  "js_div NaN y = NaN"
| "js_div x NaN = NaN"
| "js_div PInf PInf = NaN"
| "js_div PInf NInf = NaN"
| "js_div NInf PInf = NaN"
| "js_div NInf NInf = NaN"
| "js_div PInf (Fin b) = (if b < 0 then NInf else PInf)"
| "js_div NInf (Fin b) = (if b < 0 then PInf else NInf)"
| "js_div (Fin a) PInf = Fin 0"
| "js_div (Fin a) NInf = Fin 0"
| "js_div (Fin a) (Fin b) =
     (if b = 0 then (if a = 0 then NaN else if 0 < a then PInf else NInf)
      else fl (a / b))"

text \<open>The relational operators: every comparison with \<open>NaN\<close> is false.\<close>

fun js_lt :: "jsnum \<Rightarrow> jsnum \<Rightarrow> bool" where
  "js_lt NaN y = False"
| "js_lt x NaN = False"
| "js_lt (Fin a) (Fin b) = (a < b)"
| "js_lt x NInf = False"
| "js_lt PInf y = False"
| "js_lt NInf y = True"
| "js_lt x PInf = True"

definition js_gt :: "jsnum \<Rightarrow> jsnum \<Rightarrow> bool" where
  "js_gt x y = js_lt y x"

fun js_le :: "jsnum \<Rightarrow> jsnum \<Rightarrow> bool" where
  "js_le NaN y = False"
| "js_le x NaN = False"
| "js_le x y = (\<not> js_lt y x)"

text \<open>Strict equality \<^verbatim>\<open>===\<close> of numbers.\<close>

fun js_eq :: "jsnum \<Rightarrow> jsnum \<Rightarrow> bool" where
  "js_eq NaN y = False"
| "js_eq x NaN = False"
| "js_eq x y = (x = y)"

text \<open>\<^verbatim>\<open>Math.ceil\<close>: the ceiling of a binary64 value is a binary64 value.\<close>

fun Math_ceil :: "jsnum \<Rightarrow> jsnum" where
  "Math_ceil (Fin a) = Fin (of_int \<lceil>a\<rceil>)"
| "Math_ceil x = x"

text \<open>\<^verbatim>\<open>Math.max(...xs)\<close> and \<^verbatim>\<open>Math.min(...xs)\<close>: \<open>NaN\<close> if any argument is,
  \<open>-Infinity\<close> and \<open>+Infinity\<close> on no arguments.\<close>

definition Math_max :: "jsnum list \<Rightarrow> jsnum" where
  "Math_max xs = (if NaN \<in> set xs then NaN
                  else foldl (\<lambda>highest x. if js_lt highest x then x else highest) NInf xs)"

definition Math_min :: "jsnum list \<Rightarrow> jsnum" where
  "Math_min xs = (if NaN \<in> set xs then NaN
                  else foldl (\<lambda>lowest x. if js_lt x lowest then x else lowest) PInf xs)"

section \<open>Strings and conversions\<close>

text \<open>
  A string is a list of code units; this model carries the code units below 256, which
  cover every literal of the component (\<open>0xB0\<close> is the degree sign, \<open>0xB1\<close> plus-minus,
  \<open>0xB2\<close> superscript two, \<open>0x0A\<close> the line feed of a multi-line template).
\<close>

definition is_white_space :: "char \<Rightarrow> bool" where
  "is_white_space c = (c \<in> set [CHR 0x09, CHR 0x0A, CHR 0x0B, CHR 0x0C, CHR 0x0D, CHR 0x20, CHR 0xA0])"

fun char_index :: "char \<Rightarrow> string \<Rightarrow> nat option" where
  "char_index c [] = None"
| "char_index c (d # ds) =
     (if c = d then Some 0
      else case char_index c ds of None \<Rightarrow> None | Some i \<Rightarrow> Some (Suc i))"

text \<open>The value of a code unit as a digit of radix \<open>R\<close> (\<open>R \<le> 16\<close>), if it is one.\<close>

definition digit_of :: "nat \<Rightarrow> char \<Rightarrow> nat option" where
  "digit_of R c =
     (case char_index c ''0123456789abcdef'' of
        Some d \<Rightarrow> (if d < R then Some d else None)
      | None \<Rightarrow>
          (case char_index c ''ABCDEF'' of
             Some d \<Rightarrow> (if d + 10 < R then Some (d + 10) else None)
           | None \<Rightarrow> None))"

definition is_digit :: "nat \<Rightarrow> char \<Rightarrow> bool" where
  "is_digit R c = (digit_of R c \<noteq> None)"

definition digit_value :: "nat \<Rightarrow> char \<Rightarrow> int" where
  "digit_value R c = (case digit_of R c of Some d \<Rightarrow> int d | None \<Rightarrow> 0)"

definition digits_value :: "nat \<Rightarrow> string \<Rightarrow> int" where
  "digits_value R Z = foldl (\<lambda>acc c. acc * int R + digit_value R c) 0 Z"

text \<open>
  \<^verbatim>\<open>parseInt(string)\<close> with no radix: leading white space, an optional sign, an optional
  \<^verbatim>\<open>0x\<close> prefix, then the longest run of digits; \<open>NaN\<close> if that run is empty.
\<close>

definition parseInt :: "string \<Rightarrow> jsnum" where
  "parseInt inputString =
     (let S = dropWhile is_white_space inputString;
          negative = (take 1 S = ''-'');
          S1 = (if take 1 S = ''+'' \<or> take 1 S = ''-'' then drop 1 S else S);
          hex = (take 2 S1 = ''0x'' \<or> take 2 S1 = ''0X'');
          R = (if hex then 16 else 10);
          S2 = (if hex then drop 2 S1 else S1);
          Z = takeWhile (is_digit R) S2
      in if Z = [] then NaN
         else if negative then fl (- of_int (digits_value R Z))
         else fl (of_int (digits_value R Z)))"

definition pow10 :: "int \<Rightarrow> rat" where
  "pow10 k = (if 0 \<le> k then 10 ^ nat k else 1 / 10 ^ nat (- k))"

text \<open>\<open>ilog10 t\<close> is the decimal exponent of \<open>t > 0\<close>: \<open>10 ^ ilog10 t \<le> t < 10 ^ (ilog10 t + 1)\<close>.\<close>

definition ilog10 :: "rat \<Rightarrow> int" where
  "ilog10 t = (if 1 \<le> t then int (floorlog 10 (nat \<lfloor>t\<rfloor>)) - 1
               else - int (floorlog 10 (nat (\<lceil>1 / t\<rceil> - 1))))"

definition trim :: "string \<Rightarrow> string" where
  "trim s = rev (dropWhile is_white_space (rev (dropWhile is_white_space s)))"

definition all_digits :: "nat \<Rightarrow> string \<Rightarrow> bool" where
  "all_digits R Z = (Z \<noteq> [] \<and> list_all (is_digit R) Z)"

text \<open>An unsigned decimal literal: \<^verbatim>\<open>Infinity\<close>, or digits with an optional fraction and
  an optional exponent; its exact value is rounded once.\<close>

definition decimal_literal :: "string \<Rightarrow> jsnum" where
  "decimal_literal S =
     (if S = ''Infinity'' then PInf
      else
        let I = takeWhile (is_digit 10) S;
            S1 = drop (length I) S;
            F = (if take 1 S1 = ''.'' then takeWhile (is_digit 10) (drop 1 S1) else []);
            S2 = (if take 1 S1 = ''.'' then drop (1 + length F) S1 else S1);
            S3 = drop 1 S2;
            E = (if take 1 S3 = ''+'' \<or> take 1 S3 = ''-'' then drop 1 S3 else S3);
            mantissa = of_int (digits_value 10 (I @ F))
        in if I = [] \<and> F = [] then NaN
           else if S2 = [] then fl (mantissa * pow10 (- int (length F)))
           else if (take 1 S2 = ''e'' \<or> take 1 S2 = ''E'') \<and> all_digits 10 E then
             (if take 1 S3 = ''-''
              then fl (mantissa * pow10 (- digits_value 10 E - int (length F)))
              else fl (mantissa * pow10 (digits_value 10 E - int (length F))))
           else NaN)"

text \<open>\<^verbatim>\<open>Number(string)\<close>: white space trimmed at both ends, the empty string is \<open>0\<close>,
  an unsigned \<^verbatim>\<open>0x\<close>, \<^verbatim>\<open>0o\<close> or \<^verbatim>\<open>0b\<close> integer, or a signed decimal literal.\<close>

definition Number :: "string \<Rightarrow> jsnum" where
  "Number inputString =
     (let T = trim inputString
      in if T = [] then Fin 0
         else if take 2 T = ''0x'' \<or> take 2 T = ''0X'' then
           (if all_digits 16 (drop 2 T) then fl (of_int (digits_value 16 (drop 2 T))) else NaN)
         else if take 2 T = ''0o'' \<or> take 2 T = ''0O'' then
           (if all_digits 8 (drop 2 T) then fl (of_int (digits_value 8 (drop 2 T))) else NaN)
         else if take 2 T = ''0b'' \<or> take 2 T = ''0B'' then
           (if all_digits 2 (drop 2 T) then fl (of_int (digits_value 2 (drop 2 T))) else NaN)
         else if take 1 T = ''-'' then js_neg (decimal_literal (drop 1 T))
         else if take 1 T = ''+'' then decimal_literal (drop 1 T)
         else decimal_literal T)"

text \<open>The decimal digits of a non-negative integer.\<close>

function digits_of :: "int \<Rightarrow> string" where
  "digits_of n = (if n < 10 then [''0123456789'' ! nat n]
                  else digits_of (n div 10) @ [''0123456789'' ! nat (n mod 10)])"
  by pat_completeness auto
termination
  by (relation "measure nat") auto

declare digits_of.simps [simp del]

text \<open>
  \<^verbatim>\<open>Number.prototype.toString\<close>, radix 10. For a finite non-zero \<open>x\<close> the digits are those
  of the integer \<open>s\<close> with the least number \<open>k\<close> of digits such that \<open>s * 10 ^ (n - k)\<close>
  rounds to \<open>x\<close>; among several \<open>s\<close> the one closest to \<open>x\<close>.
\<close>

definition round_trips :: "rat \<Rightarrow> int \<Rightarrow> int \<times> int \<Rightarrow> bool" where
  "round_trips r k c =
     (case c of (n, s) \<Rightarrow>
        10 ^ nat (k - 1) \<le> s \<and> s < 10 ^ nat k \<and> fl (of_int s * pow10 (n - k)) = Fin r)"

definition candidates :: "rat \<Rightarrow> int \<Rightarrow> (int \<times> int) list" where
  "candidates r k =
     (let n0 = ilog10 r + 1
      in filter (round_trips r k)
           [(n0, \<lfloor>r / pow10 (n0 - k)\<rfloor>), (n0, \<lfloor>r / pow10 (n0 - k)\<rfloor> + 1),
            (n0 + 1, \<lfloor>r / pow10 (n0 + 1 - k)\<rfloor>), (n0 + 1, \<lfloor>r / pow10 (n0 + 1 - k)\<rfloor> + 1)])"

definition closer :: "rat \<Rightarrow> int \<Rightarrow> int \<times> int \<Rightarrow> int \<times> int \<Rightarrow> int \<times> int" where
  "closer r k c b =
     (let dc = \<bar>of_int (snd c) * pow10 (fst c - k) - r\<bar>;
          db = \<bar>of_int (snd b) * pow10 (fst b - k) - r\<bar>
      in if dc < db \<or> (dc = db \<and> even (snd c)) then c else b)"

fun shortest_digits :: "rat \<Rightarrow> nat \<Rightarrow> int \<Rightarrow> int \<times> int \<times> int" where
  "shortest_digits r 0 k = (ilog10 r + 1, k, \<lfloor>r / pow10 (ilog10 r + 1 - k)\<rfloor>)"
| "shortest_digits r (Suc fuel) k =
     (case candidates r k of
        [] \<Rightarrow> shortest_digits r fuel (k + 1)
      | c # cs \<Rightarrow> (case foldr (closer r k) cs c of (n, s) \<Rightarrow> (n, k, s)))"

definition format_digits :: "int \<times> int \<times> int \<Rightarrow> string" where
  "format_digits nks =
     (case nks of (n, k, s) \<Rightarrow>
        let ds = digits_of s
        in if k \<le> n \<and> n \<le> 21 then ds @ replicate (nat (n - k)) CHR ''0''
           else if 0 < n \<and> n \<le> 21 then take (nat n) ds @ ''.'' @ drop (nat n) ds
           else if - 6 < n \<and> n \<le> 0 then ''0.'' @ replicate (nat (- n)) CHR ''0'' @ ds
           else
             let es = (if n - 1 < 0 then ''-'' else ''+'') @ digits_of \<bar>n - 1\<bar>
             in if k = 1 then ds @ ''e'' @ es
                else take 1 ds @ ''.'' @ drop 1 ds @ ''e'' @ es)"

text \<open>An integer below \<open>2 ^ 53\<close> is printed with its decimal digits (what the search
  gives there); the other finite values go through the search.\<close>

definition toString_pos :: "rat \<Rightarrow> string" where
  "toString_pos r =
     (if r = of_int \<lfloor>r\<rfloor> \<and> r < 2 ^ 53 then digits_of \<lfloor>r\<rfloor>
      else format_digits (shortest_digits r 17 1))"

fun toString :: "jsnum \<Rightarrow> string" where
  "toString NaN = ''NaN''"
| "toString PInf = ''Infinity''"
| "toString NInf = ''-Infinity''"
| "toString (Fin r) =
     (if r = 0 then ''0''
      else if r < 0 then ''-'' @ toString_pos (- r)
      else toString_pos r)"

text \<open>\<^verbatim>\<open>x.toFixed(f)\<close>: the integer \<open>n\<close> with \<open>n / 10 ^ f\<close> closest to \<open>x\<close> (the larger
  of two), printed with \<open>f\<close> digits after the point.\<close>

definition toFixed :: "jsnum \<Rightarrow> nat \<Rightarrow> string" where
  "toFixed x f =
     (case x of
        Fin r \<Rightarrow>
          (if 10 ^ 21 \<le> \<bar>r\<bar> then toString x
           else
             let ds = digits_of \<lfloor>\<bar>r\<bar> * 10 ^ f + 1 / 2\<rfloor>;
                 m = replicate (f + 1 - length ds) CHR ''0'' @ ds;
                 k = length m
             in (if r < 0 then ''-'' else []) @
                (if f = 0 then m else take (k - f) m @ ''.'' @ drop (k - f) m))
      | _ \<Rightarrow> toString x)"

text \<open>\<^verbatim>\<open>x.toExponential(f)\<close>: \<open>f + 1\<close> significant digits and a decimal exponent.\<close>

definition toExponential :: "jsnum \<Rightarrow> nat \<Rightarrow> string" where
  "toExponential x f =
     (case x of
        Fin r \<Rightarrow>
          let a = \<bar>r\<bar>;
              e0 = (if a = 0 then 0 else ilog10 a);
              n0 = \<lfloor>a / pow10 (e0 - int f) + 1 / 2\<rfloor>;
              e = (if n0 = 10 ^ (f + 1) then e0 + 1 else e0);
              n = (if n0 = 10 ^ (f + 1) then 10 ^ f else n0);
              ds = (if a = 0 then replicate (f + 1) CHR ''0'' else digits_of n)
          in (if r < 0 then ''-'' else []) @
             (if f = 0 then ds else take 1 ds @ ''.'' @ drop 1 ds) @
             ''e'' @ (if e < 0 then ''-'' else ''+'') @ digits_of \<bar>e\<bar>
      | _ \<Rightarrow> toString x)"

section \<open>The simulation component\<close>

text \<open>\<^verbatim>\<open>TemperatureData\<close>: one record of the historical series.\<close>

record TemperatureData =
  year :: string
  annual_mean :: jsnum
  five_year_smooth :: jsnum

text \<open>The two values of \<^verbatim>\<open>selectedModel\<close>: \<^verbatim>\<open>'polynomial' | 'moving-average'\<close>.\<close>

datatype model = polynomial | moving_average

text \<open>The \<^verbatim>\<open>result\<close> state: \<^verbatim>\<open>{ prediction, details, error? }\<close>.\<close>

record simulation_result =
  prediction :: jsnum
  details :: "string list"
  error :: "string option"

text \<open>The \<^verbatim>\<open>predictionLine\<close> state: \<^verbatim>\<open>{ years, temps }\<close>.\<close>

record prediction_line =
  years :: "string list"
  temps :: "jsnum list"

text \<open>The state of the component, one field for each \<^verbatim>\<open>useState\<close> (the component's own
  \<^verbatim>\<open>error\<close> is \<open>fetch_error\<close> here, the name \<open>error\<close> being the result's).\<close>

record state =
  data :: "TemperatureData list"
  selectedModel :: model
  yearToPredict :: string
  result :: "simulation_result option"
  loading :: bool
  predictionLine :: prediction_line
  isLoading :: bool
  fetch_error :: "string option"

text \<open>
  The \<^verbatim>\<open>regression\<close> package is not part of the component: its \<^verbatim>\<open>Result\<close> is the record
  declared in \<^verbatim>\<open>types/regression.d.ts\<close>, and its \<^verbatim>\<open>polynomial(points, { order, precision })\<close>
  is a parameter \<open>lib\<close> of every function that calls it.
\<close>

record regression_result =
  reg_equation :: "jsnum list"
  reg_r2 :: jsnum
  reg_points :: "(jsnum \<times> jsnum) list"
  reg_predict :: "jsnum \<Rightarrow> jsnum \<times> jsnum"

type_synonym regression_polynomial = "(jsnum \<times> jsnum) list \<Rightarrow> nat \<Rightarrow> nat \<Rightarrow> regression_result"

text \<open>The exceptions the component's own code can raise: a property read on
  \<^verbatim>\<open>undefined\<close>, and an array grown beyond the length an array can have.\<close>

datatype js_error = TypeError | RangeError

text \<open>
  \<^verbatim>\<open>Array.prototype.push\<close> of one element. The length of an array is below \<open>2 ^ 32\<close>,
  and the push that would reach it raises a \<^verbatim>\<open>RangeError\<close> (ECMA-262, ArraySetLength); an
  engine raises the same error at a smaller limit of its own.
\<close>

definition max_array_length :: nat where
  "max_array_length = 2 ^ 32 - 1"

definition push :: "'a list \<Rightarrow> 'a \<Rightarrow> js_error + 'a list" where
  "push xs x = (if length xs < max_array_length then Inr (xs @ [x]) else Inl RangeError)"

record polynomial_prediction =
  poly_prediction :: jsnum
  poly_equation :: string
  poly_r2 :: jsnum

text \<open>\<^verbatim>\<open>calculatePolynomialRegression(targetYear)\<close>; the destructuring \<^verbatim>\<open>[a, b, c]\<close> of a
  shorter \<^verbatim>\<open>equation\<close> leaves \<^verbatim>\<open>undefined\<close>, on which \<^verbatim>\<open>toExponential\<close> and
  \<^verbatim>\<open>toFixed\<close> raise.\<close>

definition calculatePolynomialRegression ::
  "regression_polynomial \<Rightarrow> TemperatureData list \<Rightarrow> string \<Rightarrow> js_error + polynomial_prediction" where
  "calculatePolynomialRegression lib dat targetYear =
     (if length dat = 0
      then Inr \<lparr>poly_prediction = Fin 0, poly_equation = [], poly_r2 = Fin 0\<rparr>
      else
        let baseYear = Fin 1900;
            points = map (\<lambda>d. (js_sub (Number (year d)) baseYear, five_year_smooth d)) dat;
            res = lib points 2 8;
            normalizedYear = js_sub (parseInt targetYear) baseYear;
            prediction = snd (reg_predict res normalizedYear)
        in case reg_equation res of
             a # b # c # rest \<Rightarrow>
               let equation = ''y = '' @ toExponential a 6 @ [CHR ''x'', CHR 0xB2] @ '' + '' @
                              toFixed b 6 @ ''x + '' @ toFixed c 4;
                   n = Fin (of_nat (length points));
                   p = Fin 2;
                   adjustedR2 = js_sub (Fin 1)
                     (js_div (js_mul (js_sub (Fin 1) (reg_r2 res)) (js_sub n (Fin 1)))
                             (js_sub (js_sub n p) (Fin 1)))
               in Inr \<lparr>poly_prediction = prediction, poly_equation = equation,
                       poly_r2 = adjustedR2\<rparr>
           | _ \<Rightarrow> Inl TypeError)"

record moving_average_prediction =
  mavg_prediction :: jsnum
  mavg_description :: string

text \<open>The two statistics of \<^verbatim>\<open>calculateMovingAverage\<close>, lines 129 and 132, over
  \<^verbatim>\<open>recentData = data.slice(-5)\<close>.\<close>

definition avgTemp :: "TemperatureData list \<Rightarrow> jsnum" where
  "avgTemp recentData =
     js_div (foldl (\<lambda>sum d. js_add sum (five_year_smooth d)) (Fin 0) recentData)
            (Fin (of_nat (length recentData)))"

definition yearlyChange :: "TemperatureData list \<Rightarrow> jsnum" where
  "yearlyChange recentData =
     js_div (js_sub (five_year_smooth (recentData ! (length recentData - 1)))
                    (five_year_smooth (recentData ! 0)))
            (Fin 4)"

definition calculateMovingAverage ::
  "TemperatureData list \<Rightarrow> string \<Rightarrow> moving_average_prediction" where
  "calculateMovingAverage dat targetYear =
     (if length dat = 0 then \<lparr>mavg_prediction = Fin 0, mavg_description = []\<rparr>
      else
        let recentData = drop (length dat - 5) dat;
            lastYear = parseInt (year (dat ! (length dat - 1)));
            yearsAhead = js_sub (parseInt targetYear) lastYear;
            prediction = js_add (avgTemp recentData) (js_mul (yearlyChange recentData) yearsAhead);
            description = ''Based on 5-year moving average:'' @ [CHR 0x0A] @
              ''Last 5 years average: '' @ toFixed (avgTemp recentData) 2 @ [CHR 0xB0, CHR ''C'', CHR 0x0A] @
              ''Rate of change: '' @ (if js_gt (yearlyChange recentData) (Fin 0) then ''+'' else []) @
              toFixed (js_mul (yearlyChange recentData) (Fin 100)) 4 @ [CHR 0xB0] @ ''C per year''
        in \<lparr>mavg_prediction = prediction, mavg_description = description\<rparr>)"

text \<open>
  The \<^verbatim>\<open>for\<close> loop of \<^verbatim>\<open>generatePredictionLine\<close>. Its condition alone does not
  bound its iterations, so it is a partial function: \<open>None\<close> would be a loop that never
  ends, \<open>Some (Inl e)\<close> is an exception raised in its body. Every turn pushes onto both
  arrays, so a loop whose year does not advance ends with the \<^verbatim>\<open>RangeError\<close> of
  \<^verbatim>\<open>push\<close>.
\<close>

partial_function (option) predictionLoop ::
  "regression_polynomial \<Rightarrow> TemperatureData list \<Rightarrow> model \<Rightarrow> jsnum \<Rightarrow> jsnum \<Rightarrow>
   jsnum \<Rightarrow> prediction_line \<Rightarrow> (js_error + prediction_line) option" where
  "predictionLoop lib dat mdl predictionYear yearStep yr line =
     (if js_le yr predictionYear then
        (let currentYear = toString yr
         in case push (years line) currentYear of
              Inl e \<Rightarrow> Some (Inl e)
            | Inr years' \<Rightarrow>
                if mdl = polynomial then
                  (case calculatePolynomialRegression lib dat currentYear of
                     Inl e \<Rightarrow> Some (Inl e)
                   | Inr r \<Rightarrow>
                       (case push (temps line) (poly_prediction r) of
                          Inl e \<Rightarrow> Some (Inl e)
                        | Inr temps' \<Rightarrow>
                            predictionLoop lib dat mdl predictionYear yearStep
                              (js_add yr yearStep) \<lparr>years = years', temps = temps'\<rparr>))
                else
                  (case push (temps line)
                          (mavg_prediction (calculateMovingAverage dat currentYear)) of
                     Inl e \<Rightarrow> Some (Inl e)
                   | Inr temps' \<Rightarrow>
                       predictionLoop lib dat mdl predictionYear yearStep
                         (js_add yr yearStep) \<lparr>years = years', temps = temps'\<rparr>))
      else Some (Inr line))"

declare predictionLoop.simps [code]

text \<open>\<^verbatim>\<open>generatePredictionLine(prediction, model)\<close>, over the \<^verbatim>\<open>data\<close> and
  \<^verbatim>\<open>yearToPredict\<close> of the component; on no data, \<^verbatim>\<open>data[data.length - 1].year\<close>
  raises. The two pushes before the loop are onto empty arrays.\<close>

definition generatePredictionLine ::
  "regression_polynomial \<Rightarrow> TemperatureData list \<Rightarrow> string \<Rightarrow> jsnum \<Rightarrow> model \<Rightarrow>
   (js_error + prediction_line) option" where
  "generatePredictionLine lib dat yearToPredict' prediction' mdl =
     (if length dat = 0 then Some (Inl TypeError)
      else
        let lastDataYear = parseInt (year (dat ! (length dat - 1)));
            predictionYear = parseInt yearToPredict';
            line0 = \<lparr>years = [toString lastDataYear],
                     temps = [five_year_smooth (dat ! (length dat - 1))]\<rparr>;
            numPoints = Fin 5;
            yearStep = Math_ceil (js_div (js_sub predictionYear lastDataYear) numPoints)
        in case predictionLoop lib dat mdl predictionYear yearStep
                  (js_add lastDataYear yearStep) line0 of
             None \<Rightarrow> None
           | Some (Inl e) \<Rightarrow> Some (Inl e)
           | Some (Inr line) \<Rightarrow>
               (if years line ! (length (years line) - 1) \<noteq> toString predictionYear
                then (case push (years line) (toString predictionYear) of
                        Inl e \<Rightarrow> Some (Inl e)
                      | Inr years' \<Rightarrow>
                          (case push (temps line) prediction' of
                             Inl e \<Rightarrow> Some (Inl e)
                           | Inr temps' \<Rightarrow> Some (Inr \<lparr>years = years', temps = temps'\<rparr>)))
                else Some (Inr line)))"

text \<open>Lines 212 to 235 of \<^verbatim>\<open>handleSimulation\<close>: the prediction of the selected model
  and the lines of its explanation.\<close>

definition modelPrediction ::
  "regression_polynomial \<Rightarrow> state \<Rightarrow> js_error + jsnum \<times> string list" where
  "modelPrediction lib s =
     (if selectedModel s = polynomial then
        (case calculatePolynomialRegression lib (data s) (yearToPredict s) of
           Inl e \<Rightarrow> Inl e
         | Inr r \<Rightarrow>
             Inr (poly_prediction r,
                  [''Prediction Model: Polynomial Regression (2nd degree)'',
                   ''Target Year: '' @ yearToPredict s,
                   ''Predicted Temperature: '' @ toFixed (poly_prediction r) 2 @ [CHR 0xB0, CHR ''C''],
                   ''Mathematical Model: '' @ poly_equation r,
                   ''Model Accuracy (R'' @ [CHR 0xB2] @ ''): '' @ toFixed (poly_r2 r) 4,
                   ''Note: Using 5-year smoothed data for stability'']))
      else
        (let r = calculateMovingAverage (data s) (yearToPredict s)
         in Inr (mavg_prediction r,
                 [''Prediction Model: 5-Year Moving Average'',
                  ''Target Year: '' @ yearToPredict s,
                  ''Predicted Temperature: '' @ toFixed (mavg_prediction r) 2 @ [CHR 0xB0, CHR ''C''],
                  mavg_description r])))"

text \<open>Lines 238 to 244: the historical range of \<^verbatim>\<open>annual_mean\<close> and its margin.\<close>

definition maxTemp :: "TemperatureData list \<Rightarrow> jsnum" where
  "maxTemp dat = Math_max (map annual_mean dat)"

definition minTemp :: "TemperatureData list \<Rightarrow> jsnum" where
  "minTemp dat = Math_min (map annual_mean dat)"

definition margin :: jsnum where
  "margin = Fin (3 / 2)"

definition allowedMin :: "TemperatureData list \<Rightarrow> jsnum" where
  "allowedMin dat = js_sub (minTemp dat) margin"

definition allowedMax :: "TemperatureData list \<Rightarrow> jsnum" where
  "allowedMax dat = js_add (maxTemp dat) margin"

definition outOfRange :: "TemperatureData list \<Rightarrow> jsnum \<Rightarrow> bool" where
  "outOfRange dat p = (js_lt p (allowedMin dat) \<or> js_gt p (allowedMax dat))"

text \<open>The message of lines 248 to 253.\<close>

definition rangeWarning :: "TemperatureData list \<Rightarrow> jsnum \<Rightarrow> string" where
  "rangeWarning dat p =
     ''Note: The predicted temperature ('' @ toFixed p 2 @ [CHR 0xB0] @
     ''C) is outside our historical observations.'' @ [CHR 0x0A, CHR 0x0A] @
     ''Historical Range: '' @ toFixed (minTemp dat) 2 @ [CHR 0xB0] @ ''C to '' @
     toFixed (maxTemp dat) 2 @ [CHR 0xB0, CHR ''C'', CHR 0x0A] @
     ''Allowed Range: '' @ toFixed (allowedMin dat) 2 @ [CHR 0xB0] @ ''C to '' @
     toFixed (allowedMax dat) 2 @ [CHR 0xB0] @ ''C ('' @ [CHR 0xB1] @ ''1.5'' @ [CHR 0xB0] @
     ''C margin)'' @ [CHR 0x0A, CHR 0x0A] @
     ''This doesn'' @ [CHR 0x27] @ ''t necessarily mean the prediction is wrong, '' @
     ''but it suggests a significant change from historical patterns.''"

text \<open>The three results \<^verbatim>\<open>handleSimulation\<close> can store besides the full one.\<close>

definition invalidYearResult :: simulation_result where
  "invalidYearResult =
     \<lparr>prediction = Fin 0, details = [''Invalid year selected''],
      error = Some ''Please select a year from 2024 onwards for predictions.''\<rparr>"

definition calculationErrorResult :: simulation_result where
  "calculationErrorResult =
     \<lparr>prediction = Fin 0, details = [''Error in calculation. Please try again.''],
      error = Some ''Calculation error occurred''\<rparr>"

definition warningResult :: "TemperatureData list \<Rightarrow> jsnum \<Rightarrow> string list \<Rightarrow> simulation_result" where
  "warningResult dat p ds = \<lparr>prediction = p, details = ds, error = Some (rangeWarning dat p)\<rparr>"

text \<open>The body of the \<^verbatim>\<open>try\<close> block, lines 212 to 262: \<open>Some (Inl e)\<close> is an exception
  on its way to the \<^verbatim>\<open>catch\<close>, \<open>None\<close> would be a trend-line loop that never ends
  (there is none).\<close>

definition handleSimulation_try ::
  "regression_polynomial \<Rightarrow> state \<Rightarrow> (js_error + state) option" where
  "handleSimulation_try lib s =
     (case modelPrediction lib s of
        Inl e \<Rightarrow> Some (Inl e)
      | Inr (p, ds) \<Rightarrow>
          if outOfRange (data s) p
          then Some (Inr (s\<lparr>result := Some (warningResult (data s) p ds)\<rparr>))
          else
            (case generatePredictionLine lib (data s) (yearToPredict s) p (selectedModel s) of
               None \<Rightarrow> None
             | Some (Inl e) \<Rightarrow> Some (Inl e)
             | Some (Inr predLine) \<Rightarrow>
                 Some (Inr (s\<lparr>predictionLine := predLine,
                              result := Some \<lparr>prediction = p, details = ds, error = None\<rparr>\<rparr>))))"

text \<open>\<^verbatim>\<open>handleSimulation\<close>: the year check, then the \<^verbatim>\<open>try\<close> block with its
  \<^verbatim>\<open>catch\<close> and \<^verbatim>\<open>finally\<close>.\<close>

definition handleSimulation :: "regression_polynomial \<Rightarrow> state \<Rightarrow> state option" where
  "handleSimulation lib s =
     (let inputYear = parseInt (yearToPredict s)
      in if js_lt inputYear (Fin 2024)
         then Some (s\<lparr>result := Some invalidYearResult, loading := False\<rparr>)
         else
           (case handleSimulation_try lib (s\<lparr>loading := True\<rparr>) of
              None \<Rightarrow> None
            | Some (Inl e) \<Rightarrow>
                Some (s\<lparr>loading := True, result := Some calculationErrorResult, loading := False\<rparr>)
            | Some (Inr s') \<Rightarrow> Some (s'\<lparr>loading := False\<rparr>)))"

section \<open>Sample inputs\<close>

text \<open>A stand-in for the regression package: a fit with three coefficients that predicts
  27 everywhere.\<close>

definition constant_regression :: regression_polynomial where
  "constant_regression pts ord prec =
     \<lparr>reg_equation = [Fin 0, Fin 0, Fin 27], reg_r2 = Fin 1, reg_points = pts,
      reg_predict = (\<lambda>x. (x, Fin 27))\<rparr>"

text \<open>A series of one record, whose smoothed value lies above the allowed range.\<close>

definition series_2024 :: "TemperatureData list" where
  "series_2024 = [\<lparr>year = ''2024'', annual_mean = Fin 26, five_year_smooth = Fin 30\<rparr>]"

text \<open>A series of two records, rising by one degree in a year.\<close>

definition series_2023 :: "TemperatureData list" where
  "series_2023 = [\<lparr>year = ''2023'', annual_mean = Fin 26, five_year_smooth = Fin 26\<rparr>,
                  \<lparr>year = ''2024'', annual_mean = Fin 27, five_year_smooth = Fin 27\<rparr>]"

text \<open>The series of the specification's example; a decimal literal denotes the nearest
  binary64 value.\<close>

definition series_2018 :: "TemperatureData list" where
  "series_2018 =
     [\<lparr>year = ''2018'', annual_mean = fl 26, five_year_smooth = fl 26\<rparr>,
      \<lparr>year = ''2019'', annual_mean = fl (262 / 10), five_year_smooth = fl (262 / 10)\<rparr>,
      \<lparr>year = ''2020'', annual_mean = fl (264 / 10), five_year_smooth = fl (264 / 10)\<rparr>,
      \<lparr>year = ''2021'', annual_mean = fl (266 / 10), five_year_smooth = fl (266 / 10)\<rparr>,
      \<lparr>year = ''2022'', annual_mean = fl (268 / 10), five_year_smooth = fl (268 / 10)\<rparr>]"

text \<open>The component on a series, a model and a year input, before any simulation.\<close>

definition initial_state :: "TemperatureData list \<Rightarrow> model \<Rightarrow> string \<Rightarrow> state" where
  "initial_state dat mdl input =
     \<lparr>data = dat, selectedModel = mdl, yearToPredict = input, result = None,
      loading = False, predictionLine = \<lparr>years = [], temps = []\<rparr>,
      isLoading = False, fetch_error = None\<rparr>"

text \<open>The component after the simulation of 2028 on the two-record series with the
  moving-average model: the trend line of five points and the full result.\<close>

definition state_after_2028 :: state where
  "state_after_2028 =
     (initial_state series_2023 moving_average ''2028'')
       \<lparr>predictionLine :=
          \<lparr>years = [''2024'', ''2025'', ''2026'', ''2027'', ''2028''],
           temps = [Fin 27, Fin (107 / 4), Fin 27, Fin (109 / 4), Fin (55 / 2)]\<rparr>,
        result := Some
          \<lparr>prediction = Fin (55 / 2),
           details =
             [''Prediction Model: 5-Year Moving Average'', ''Target Year: 2028'',
              ''Predicted Temperature: 27.50'' @ [CHR 0xB0, CHR ''C''],
              ''Based on 5-year moving average:'' @ [CHR 0x0A] @
              ''Last 5 years average: 26.50'' @ [CHR 0xB0, CHR ''C'', CHR 0x0A] @
              ''Rate of change: +25.0000'' @ [CHR 0xB0] @ ''C per year''],
           error = None\<rparr>\<rparr>"

section \<open>Binary64 rounding\<close>

subsection \<open>Powers of two and the binary exponent\<close>

lemma pow2_powi: "pow2 k = 2 powi k"
  by (simp add: pow2_def power_int_def power_one_over inverse_eq_divide)

lemma pow2_pos: "0 < pow2 k"
  by (simp add: pow2_powi)

lemma pow2_add: "pow2 (a + b) = pow2 a * pow2 b"
  by (simp add: pow2_powi power_int_add)

lemma pow2_mono: "a \<le> b \<Longrightarrow> pow2 a \<le> pow2 b"
  by (simp add: pow2_powi power_int_increasing)

lemma pow2_strict_mono: "a < b \<Longrightarrow> pow2 a < pow2 b"
  by (simp add: pow2_powi power_int_strict_increasing)

lemma pow2_nat: "0 \<le> k \<Longrightarrow> pow2 k = of_int (2 ^ nat k)"
  by (simp add: pow2_def)

lemma pow2_less_cancel: "pow2 a < pow2 b \<Longrightarrow> a < b"
  using pow2_mono [of b a] by (cases "a < b") auto

lemma ilog2_bounds:
  assumes "0 < t"
  shows "pow2 (ilog2 t) \<le> t \<and> t < pow2 (ilog2 t + 1)"
proof (cases "1 \<le> t")
  case True
  define m where "m = \<lfloor>t\<rfloor>"
  have m1: "1 \<le> m" using True by (simp add: m_def)
  then have m0: "0 < m" by simp
  have b1: "1 \<le> bitlen m" using m0 by (simp add: bitlen_alt_def)
  from bitlen_bounds [OF m0]
  have lo: "2 ^ nat (bitlen m - 1) \<le> m" and hi: "m < 2 ^ nat (bitlen m)" by auto
  have "pow2 (bitlen m - 1) = of_int (2 ^ nat (bitlen m - 1))"
    using b1 by (simp add: pow2_nat)
  also have "\<dots> \<le> of_int m" using lo by (simp only: of_int_le_iff)
  also have "\<dots> \<le> t" by (simp add: m_def)
  finally have A: "pow2 (bitlen m - 1) \<le> t" .
  have "t < of_int \<lfloor>t\<rfloor> + 1" by linarith
  then have "t < of_int (m + 1)" by (simp add: m_def)
  also have "\<dots> \<le> of_int (2 ^ nat (bitlen m))" using hi by (simp only: of_int_le_iff)
  also have "\<dots> = pow2 (bitlen m)" using b1 by (simp add: pow2_nat)
  finally have B: "t < pow2 (bitlen m - 1 + 1)" by simp
  show ?thesis using A B True by (simp add: ilog2_def m_def)
next
  case False
  define u where "u = 1 / t"
  define m where "m = \<lceil>u\<rceil> - 1"
  have u1: "1 < u" using False assms by (simp add: u_def)
  have t_eq: "t = 1 / u" by (simp add: u_def)
  have "1 < \<lceil>u\<rceil>" using u1 by (simp add: less_ceiling_iff)
  then have m0: "0 < m" by (simp add: m_def)
  have mu: "of_int m < u" unfolding m_def by linarith
  have um: "u \<le> of_int (m + 1)" unfolding m_def by simp
  have b1: "1 \<le> bitlen m" using m0 by (simp add: bitlen_alt_def)
  from bitlen_bounds [OF m0]
  have lo: "2 ^ nat (bitlen m - 1) \<le> m" and hi: "m < 2 ^ nat (bitlen m)" by auto
  have "u \<le> of_int (2 ^ nat (bitlen m))"
    using um hi by (meson of_int_le_iff order_trans zless_imp_add1_zle)
  then have "u \<le> 2 ^ nat (bitlen m)" by simp
  then have "1 / 2 ^ nat (bitlen m) \<le> 1 / u" using u1
    by (simp add: frac_le)
  moreover have "pow2 (- bitlen m) = 1 / 2 ^ nat (bitlen m)"
    using b1 by (simp add: pow2_def)
  ultimately have A: "pow2 (- bitlen m) \<le> t" by (simp add: t_eq)
  have "(of_int (2 ^ nat (bitlen m - 1)) :: rat) \<le> of_int m"
    using lo by (simp only: of_int_le_iff)
  then have "2 ^ nat (bitlen m - 1) < u" using mu
    by (simp only: of_int_power of_int_numeral)
  then have "1 / u < 1 / 2 ^ nat (bitlen m - 1)"
    by (simp add: frac_less2)
  moreover have "pow2 (- bitlen m + 1) = 1 / 2 ^ nat (bitlen m - 1)"
    using b1 by (cases "bitlen m = 1") (simp_all add: pow2_def)
  ultimately have B: "t < pow2 (- bitlen m + 1)" by (simp add: t_eq)
  show ?thesis using A B False by (simp add: ilog2_def m_def u_def)
qed

lemma ilog2_unique:
  assumes "pow2 k \<le> t" "t < pow2 (k + 1)"
  shows "ilog2 t = k"
proof -
  have "0 < t" using assms(1) pow2_pos [of k] by linarith
  from ilog2_bounds [OF this]
  have lo: "pow2 (ilog2 t) \<le> t" and hi: "t < pow2 (ilog2 t + 1)" by auto
  have "pow2 (ilog2 t) < pow2 (k + 1)" using lo assms(2) by linarith
  then have "ilog2 t < k + 1" by (rule pow2_less_cancel)
  moreover have "pow2 k < pow2 (ilog2 t + 1)" using hi assms(1) by linarith
  then have "k < ilog2 t + 1" by (rule pow2_less_cancel)
  ultimately show ?thesis by simp
qed

lemma rne_of_int: "rne (of_int k) = k"
  by (simp add: rne_def)

lemma rne_cases: "rne t = \<lfloor>t\<rfloor> \<or> rne t = \<lfloor>t\<rfloor> + 1"
  by (simp add: rne_def Let_def)

lemma rne_floor_le: "\<lfloor>t\<rfloor> \<le> rne t"
  using rne_cases [of t] by auto

lemma rne_le_ceiling: "rne t \<le> \<lceil>t\<rceil>"
proof (cases "t = of_int \<lfloor>t\<rfloor>")
  case True
  then have "rne t = \<lfloor>t\<rfloor>" by (metis rne_of_int)
  then show ?thesis by (simp add: floor_le_ceiling)
next
  case False
  then have "\<lceil>t\<rceil> = \<lfloor>t\<rfloor> + 1"
    by (metis ceiling_altdef)
  then show ?thesis using rne_cases [of t] by auto
qed

lemma rne_mono:
  assumes "t \<le> u"
  shows "rne t \<le> rne u"
proof (cases "\<lfloor>t\<rfloor> = \<lfloor>u\<rfloor>")
  case True
  have "t - of_int \<lfloor>t\<rfloor> \<le> u - of_int \<lfloor>u\<rfloor>" using assms True by simp
  then show ?thesis using True by (auto simp: rne_def Let_def)
next
  case False
  then have "\<lfloor>t\<rfloor> < \<lfloor>u\<rfloor>" using floor_mono [OF assms] by linarith
  then have "rne t \<le> \<lfloor>u\<rfloor>" using rne_cases [of t] by auto
  then show ?thesis using rne_floor_le [of u] by linarith
qed

lemma rne_minus: "rne (- t) = - rne t"
proof (cases "t = of_int \<lfloor>t\<rfloor>")
  case True
  then obtain k where "t = of_int k" ..
  then show ?thesis by (metis of_int_minus rne_of_int)
next
  case False
  then have fl: "\<lfloor>- t\<rfloor> = - \<lfloor>t\<rfloor> - 1"
    by (metis ceiling_altdef ceiling_def add_diff_cancel_right' minus_diff_eq uminus_add_conv_diff diff_minus_eq_add neg_equal_iff_equal)
  have d: "0 < t - of_int \<lfloor>t\<rfloor>" using False
    by (metis diff_gt_0_iff_gt of_int_floor_le order_le_imp_less_or_eq)
  show ?thesis using d unfolding rne_def Let_def fl
    by (auto simp: algebra_simps)
qed

lemma rne_error: "\<bar>of_int (rne t) - t\<bar> \<le> 1 / 2"
proof -
  define f where "f = \<lfloor>t\<rfloor>"
  have "of_int f \<le> t" "t < of_int f + 1" unfolding f_def by linarith+
  then show ?thesis unfolding rne_def Let_def f_def [symmetric] by (auto simp: abs_if)
qed

lemma rne_unique:
  assumes "\<bar>t - of_int m\<bar> < 1 / 2"
  shows "rne t = m"
proof -
  define f where "f = \<lfloor>t\<rfloor>"
  have f: "of_int f \<le> t" "t < of_int f + 1" unfolding f_def by linarith+
  have "of_int m - 1 < t" "t < of_int m + 1" using assms by (auto simp: abs_if split: if_splits)
  then have "of_int (m - 1) < (of_int (f + 1) :: rat)" "(of_int f :: rat) < of_int (m + 1)"
    using f by auto
  then have "m - 1 < f + 1" "f < m + 1" by (simp_all only: of_int_less_iff)
  then have "f = m \<or> f = m - 1" by linarith
  then show ?thesis using assms f unfolding rne_def Let_def f_def [symmetric]
    by (auto simp: abs_if split: if_splits)
qed

subsection \<open>Rounding is monotone\<close>

lemma ilog2_mono:
  assumes "0 < x" "x \<le> y"
  shows "ilog2 x \<le> ilog2 y"
proof -
  have "0 < y" using assms by linarith
  from ilog2_bounds [OF assms(1)] ilog2_bounds [OF this]
  have "pow2 (ilog2 x) < pow2 (ilog2 y + 1)" using assms(2) by linarith
  then have "ilog2 x < ilog2 y + 1" by (rule pow2_less_cancel)
  then show ?thesis by simp
qed

lemma quantum_pos: "0 < quantum x"
  by (simp add: quantum_def pow2_pos)

lemma expo_minus: "expo (- x) = expo x"
  by (simp add: expo_def)

lemma quantum_minus: "quantum (- x) = quantum x"
  by (simp add: quantum_def expo_minus)

lemma round_quantum_minus: "round_quantum (- x) = - round_quantum x"
  by (simp add: round_quantum_def quantum_minus rne_minus)

lemma round_quantum_zero: "round_quantum 0 = 0"
  by (simp add: round_quantum_def rne_def)

lemma rne_nonneg: "0 \<le> t \<Longrightarrow> 0 \<le> rne t"
  using rne_mono [of 0 t] by (simp add: rne_def)

lemma round_quantum_nonneg: "0 \<le> x \<Longrightarrow> 0 \<le> round_quantum x"
  unfolding round_quantum_def
  using quantum_pos [of x] by (simp add: rne_nonneg)

lemma expo_mono:
  assumes "0 < x" "x \<le> y"
  shows "expo x \<le> expo y"
  using ilog2_mono [of "\<bar>x\<bar>" "\<bar>y\<bar>"] assms by (simp add: expo_def)

lemma pow2_div: "pow2 a / pow2 b = pow2 (a - b)"
proof -
  have "pow2 (a - b) * pow2 b = pow2 a" by (simp flip: pow2_add)
  then show ?thesis using pow2_pos [of b] by (simp add: field_simps)
qed

lemma pow2_numeral: "pow2 (numeral n) = 2 ^ numeral n"
  by (simp add: pow2_def)

lemma round_quantum_upper:
  assumes "0 < x"
  shows "round_quantum x \<le> pow2 (expo x + 1)"
proof -
  have "x < pow2 (ilog2 x + 1)" using ilog2_bounds [OF assms] by simp
  also have "\<dots> \<le> pow2 (expo x + 1)" using assms by (intro pow2_mono) (simp add: expo_def)
  finally have "x / quantum x < pow2 (expo x + 1) / quantum x"
    using quantum_pos [of x] by (simp add: divide_strict_right_mono)
  also have "\<dots> = pow2 53" by (simp add: quantum_def pow2_div)
  also have "\<dots> = of_int (2 ^ 53)" by (simp add: pow2_def)
  finally have "rne (x / quantum x) \<le> rne (of_int (2 ^ 53))"
    by (intro rne_mono) simp
  then have "rne (x / quantum x) \<le> 2 ^ 53" by (simp only: rne_of_int)
  then have "(of_int (rne (x / quantum x)) :: rat) \<le> of_int (2 ^ 53)"
    by (simp only: of_int_le_iff)
  then have "round_quantum x \<le> of_int (2 ^ 53) * quantum x"
    unfolding round_quantum_def using quantum_pos [of x]
    by (intro mult_right_mono) simp_all
  also have "of_int (2 ^ 53) * quantum x = pow2 53 * pow2 (expo x - 52)"
    by (simp add: quantum_def pow2_def)
  also have "\<dots> = pow2 (53 + (expo x - 52))" by (rule pow2_add [symmetric])
  also have "53 + (expo x - 52) = expo x + 1" by simp
  finally show ?thesis .
qed

lemma round_quantum_lower:
  assumes "0 < y" "- 1022 < expo y"
  shows "pow2 (expo y) \<le> round_quantum y"
proof -
  have e: "expo y = ilog2 y" using assms by (simp add: expo_def max_def split: if_splits)
  have "pow2 (expo y) \<le> y" using ilog2_bounds [OF assms(1)] e by simp
  then have "pow2 (expo y) / quantum y \<le> y / quantum y"
    using quantum_pos [of y] by (simp add: divide_right_mono)
  moreover have "pow2 (expo y) / quantum y = pow2 52" by (simp add: quantum_def pow2_div)
  moreover have "pow2 52 = of_int (2 ^ 52)" by (simp add: pow2_def)
  ultimately have "rne (of_int (2 ^ 52)) \<le> rne (y / quantum y)"
    by (intro rne_mono) simp
  then have "2 ^ 52 \<le> rne (y / quantum y)" by (simp only: rne_of_int)
  then have "(of_int (2 ^ 52) :: rat) \<le> of_int (rne (y / quantum y))"
    by (simp only: of_int_le_iff)
  then have "of_int (2 ^ 52) * quantum y \<le> round_quantum y"
    unfolding round_quantum_def using quantum_pos [of y]
    by (intro mult_right_mono) simp_all
  moreover have "of_int (2 ^ 52) * quantum y = pow2 52 * pow2 (expo y - 52)"
    by (simp add: quantum_def pow2_def)
  moreover have "pow2 52 * pow2 (expo y - 52) = pow2 (52 + (expo y - 52))"
    by (rule pow2_add [symmetric])
  moreover have "52 + (expo y - 52) = expo y" by simp
  ultimately show ?thesis by simp
qed

lemma expo_ge: "- 1022 \<le> expo x"
  by (simp add: expo_def)

lemma round_quantum_mono_pos:
  assumes "0 < x" "x \<le> y"
  shows "round_quantum x \<le> round_quantum y"
proof (cases "expo x = expo y")
  case True
  then have q: "quantum x = quantum y" by (simp add: quantum_def)
  have "x / quantum y \<le> y / quantum y"
    using assms(2) quantum_pos [of y] by (simp add: divide_right_mono)
  then have "rne (x / quantum y) \<le> rne (y / quantum y)" by (rule rne_mono)
  then have "(of_int (rne (x / quantum y)) :: rat) \<le> of_int (rne (y / quantum y))"
    by (simp only: of_int_le_iff)
  then show ?thesis unfolding round_quantum_def q using quantum_pos [of y]
    by (intro mult_right_mono) simp_all
next
  case False
  then have lt: "expo x < expo y" using expo_mono [OF assms] by simp
  have y0: "0 < y" using assms by linarith
  have "- 1022 < expo y" using lt expo_ge [of x] by linarith
  from round_quantum_lower [OF y0 this]
  have "pow2 (expo y) \<le> round_quantum y" .
  moreover have "pow2 (expo x + 1) \<le> pow2 (expo y)" using lt by (intro pow2_mono) simp
  ultimately show ?thesis using round_quantum_upper [OF assms(1)] by linarith
qed

lemma round_quantum_mono:
  assumes "x \<le> y"
  shows "round_quantum x \<le> round_quantum y"
proof -
  consider "0 < x" | "x \<le> 0" "0 \<le> y" | "y < 0" by linarith
  then show ?thesis
  proof cases
    case 1
    then show ?thesis using assms by (rule round_quantum_mono_pos)
  next
    case 2
    have "0 \<le> round_quantum (- x)" using 2 by (intro round_quantum_nonneg) simp
    then have "round_quantum x \<le> 0" by (simp add: round_quantum_minus)
    then show ?thesis using round_quantum_nonneg [OF 2(2)] by linarith
  next
    case 3
    have "round_quantum (- y) \<le> round_quantum (- x)"
      using 3 assms by (intro round_quantum_mono_pos) simp_all
    then show ?thesis by (simp add: round_quantum_minus)
  qed
qed

lemma fl_not_NaN: "fl x \<noteq> NaN"
  by (simp add: fl_def)

lemma fl_mono:
  assumes "x \<le> y"
  shows "js_le (fl x) (fl y)"
proof -
  have m: "round_quantum x \<le> round_quantum y" using assms by (rule round_quantum_mono)
  have px: "0 \<le> x \<Longrightarrow> 0 \<le> round_quantum x" by (rule round_quantum_nonneg)
  have py: "0 \<le> y \<Longrightarrow> 0 \<le> round_quantum y" by (rule round_quantum_nonneg)
  have nx: "x \<le> 0 \<Longrightarrow> round_quantum x \<le> 0"
    using round_quantum_nonneg [of "- x"] by (simp add: round_quantum_minus)
  have ny: "y \<le> 0 \<Longrightarrow> round_quantum y \<le> 0"
    using round_quantum_nonneg [of "- y"] by (simp add: round_quantum_minus)
  have p: "0 < pow2 1024" by (rule pow2_pos)
  show ?thesis
    using m px py nx ny p assms unfolding fl_def
    by (auto simp: abs_if split: if_splits)
qed

subsection \<open>Rounding is exact on binary64 values\<close>

lemma fl_round_quantum:
  assumes "round_quantum x = x" "\<bar>x\<bar> < pow2 1024"
  shows "fl x = Fin x"
  using assms by (simp add: fl_def)

lemma ilog2_scale:
  assumes "0 < t"
  shows "ilog2 (t * pow2 k) = ilog2 t + k"
proof (rule ilog2_unique)
  from ilog2_bounds [OF assms]
  have lo: "pow2 (ilog2 t) \<le> t" and hi: "t < pow2 (ilog2 t + 1)" by auto
  show "pow2 (ilog2 t + k) \<le> t * pow2 k"
    using lo pow2_pos [of k] by (simp add: pow2_add)
  have "t * pow2 k < pow2 (ilog2 t + 1) * pow2 k"
    using hi pow2_pos [of k] by simp
  also have "\<dots> = pow2 (ilog2 t + 1 + k)" by (rule pow2_add [symmetric])
  also have "ilog2 t + 1 + k = ilog2 t + k + 1" by simp
  finally show "t * pow2 k < pow2 (ilog2 t + k + 1)" .
qed

lemma round_quantum_exact:
  assumes "\<bar>m\<bar> < 2 ^ 53" "- 1074 \<le> k"
  shows "round_quantum (of_int m * pow2 k) = of_int m * pow2 k"
proof (cases "m = 0")
  case True
  then show ?thesis by (simp add: round_quantum_zero)
next
  case False
  define x :: rat where "x = of_int m * pow2 k"
  define a :: rat where "a = \<bar>of_int m\<bar>"
  have "1 \<le> \<bar>m\<bar>" using False by linarith
  then have "(of_int 1 :: rat) \<le> of_int \<bar>m\<bar>" by (simp only: of_int_le_iff)
  then have a1: "1 \<le> a" by (simp add: a_def)
  have a0: "0 < a" using a1 by linarith
  have "a < of_int (2 ^ 53)" using assms(1) unfolding a_def
    by (metis of_int_abs of_int_less_iff)
  then have "a < pow2 53" by (simp add: pow2_def)
  then have "pow2 (ilog2 a) < pow2 53" using ilog2_bounds [OF a0] by linarith
  then have j53: "ilog2 a < 53" by (rule pow2_less_cancel)
  have ax: "\<bar>x\<bar> = a * pow2 k" using pow2_pos [of k]
    by (simp add: x_def a_def abs_mult)
  have il: "ilog2 \<bar>x\<bar> = ilog2 a + k" unfolding ax using a0 by (rule ilog2_scale)
  define d where "d = k - (expo x - 52)"
  have d0: "0 \<le> d" using j53 assms(2) by (simp add: d_def expo_def il max_def)
  have "x / quantum x = of_int m * (pow2 k / pow2 (expo x - 52))"
    by (simp add: x_def quantum_def)
  also have "\<dots> = of_int m * pow2 d" by (simp add: pow2_div d_def)
  also have "\<dots> = of_int (m * 2 ^ nat d)" using d0 by (simp add: pow2_def)
  finally have "rne (x / quantum x) = m * 2 ^ nat d" by (simp only: rne_of_int)
  then have "round_quantum x = of_int (m * 2 ^ nat d) * quantum x"
    by (simp only: round_quantum_def)
  also have "\<dots> = of_int m * (pow2 d * pow2 (expo x - 52))"
    using d0 by (simp add: pow2_def quantum_def)
  also have "pow2 d * pow2 (expo x - 52) = pow2 (d + (expo x - 52))"
    by (rule pow2_add [symmetric])
  also have "d + (expo x - 52) = k" by (simp add: d_def)
  finally show ?thesis by (simp add: x_def)
qed

lemma fl_exact:
  assumes "\<bar>m\<bar> < 2 ^ 53" "- 1074 \<le> k" "k \<le> 971"
  shows "fl (of_int m * pow2 k) = Fin (of_int m * pow2 k)"
proof (rule fl_round_quantum)
  show "round_quantum (of_int m * pow2 k) = of_int m * pow2 k"
    using assms(1,2) by (rule round_quantum_exact)
  have "(of_int \<bar>m\<bar> :: rat) < of_int (2 ^ 53)" using assms(1) by (simp only: of_int_less_iff)
  then have "\<bar>of_int m :: rat\<bar> < pow2 53" by (simp add: pow2_def)
  moreover have "pow2 k \<le> pow2 971" using assms(3) by (rule pow2_mono)
  ultimately have "\<bar>of_int m :: rat\<bar> * pow2 k < pow2 53 * pow2 971"
    using pow2_pos [of k] by (intro mult_less_le_imp_less) simp_all
  also have "\<dots> = pow2 (53 + 971)" by (rule pow2_add [symmetric])
  finally show "\<bar>of_int m * pow2 k\<bar> < pow2 1024"
    using pow2_pos [of k] by (simp add: abs_mult)
qed

lemma fl_of_int:
  assumes "\<bar>n\<bar> \<le> 2 ^ 53"
  shows "fl (of_int n) = Fin (of_int n)"
proof (cases "\<bar>n\<bar> < 2 ^ 53")
  case True
  then show ?thesis using fl_exact [of n 0] by (simp add: pow2_def)
next
  case False
  then have "n = 2 ^ 53 \<or> n = - (2 ^ 53)" using assms by linarith
  then show ?thesis
  proof
    assume n: "n = 2 ^ 53"
    have "fl (of_int (2 ^ 52) * pow2 1) = Fin (of_int (2 ^ 52) * pow2 1)"
      by (rule fl_exact) simp_all
    then show ?thesis by (simp add: n pow2_def)
  next
    assume n: "n = - (2 ^ 53)"
    have "fl (of_int (- (2 ^ 52)) * pow2 1) = Fin (of_int (- (2 ^ 52)) * pow2 1)"
      by (rule fl_exact) simp_all
    then show ?thesis by (simp add: n pow2_def)
  qed
qed

lemma fl_numeral:
  "numeral n \<le> (2 :: int) ^ 53 \<Longrightarrow> fl (numeral n) = Fin (numeral n)"
  "numeral n \<le> (2 :: int) ^ 53 \<Longrightarrow> fl (- numeral n) = Fin (- numeral n)"
  "fl 0 = Fin 0" "fl 1 = Fin 1"
  using fl_of_int [of "numeral n"] fl_of_int [of "- numeral n"] fl_of_int [of 1]
  by (simp_all add: fl_def)

lemma rne_tie:
  assumes "\<bar>t - of_int m\<bar> = 1 / 2" "even m"
  shows "rne t = m"
proof -
  from assms(1) consider "t = of_int m + 1 / 2" | "t = of_int m - 1 / 2"
    by (auto simp: abs_if split: if_splits)
  then show ?thesis
  proof cases
    case 1
    have "\<lfloor>t\<rfloor> = m" unfolding 1 by (simp add: floor_unique)
    then show ?thesis using assms(2) 1 by (simp add: rne_def Let_def)
  next
    case 2
    have "\<lfloor>t\<rfloor> = m - 1" unfolding 2 by (rule floor_unique) simp_all
    then show ?thesis using assms(2) 2 by (simp add: rne_def Let_def)
  qed
qed

lemma rne_nearest:
  assumes "\<bar>t - of_int m\<bar> < 1 / 2 \<or> (\<bar>t - of_int m\<bar> = 1 / 2 \<and> even m)"
  shows "rne t = m"
  using assms rne_unique [of t m] rne_tie [of t m] by blast

text \<open>The certificate of one rounding: the exponent \<open>e\<close> and the significand \<open>m\<close>, the
  nearest one, or the even one of the two nearest.\<close>

lemma fl_certificate:
  assumes "- 1022 \<le> e" "e \<le> 1022" "pow2 e \<le> \<bar>x\<bar>" "\<bar>x\<bar> < pow2 (e + 1)"
    and "\<bar>x - of_int m * pow2 (e - 52)\<bar> * 2 < pow2 (e - 52)
         \<or> (\<bar>x - of_int m * pow2 (e - 52)\<bar> * 2 = pow2 (e - 52) \<and> even m)"
  shows "fl x = Fin (of_int m * pow2 (e - 52))"
proof -
  have x0: "x \<noteq> 0" using assms(3) pow2_pos [of e] by auto
  have "ilog2 \<bar>x\<bar> = e" using assms(3,4) by (rule ilog2_unique)
  then have e: "expo x = e" using assms(1) by (simp add: expo_def)
  then have q: "quantum x = pow2 (e - 52)" by (simp add: quantum_def)
  have qp: "0 < pow2 (e - 52)" by (rule pow2_pos)
  define D where "D = \<bar>x - of_int m * pow2 (e - 52)\<bar>"
  have D: "D * 2 \<le> pow2 (e - 52)" "0 \<le> D" using assms(5) by (auto simp: D_def)
  have "\<bar>x / pow2 (e - 52) - of_int m\<bar> = D / pow2 (e - 52)"
    using qp by (simp add: field_simps abs_if D_def)
  moreover have "D / pow2 (e - 52) < 1 / 2 \<or> (D / pow2 (e - 52) = 1 / 2 \<and> even m)"
    using assms(5) qp by (auto simp: field_simps D_def)
  ultimately have "rne (x / pow2 (e - 52)) = m" by (intro rne_nearest) simp
  then have r: "round_quantum x = of_int m * pow2 (e - 52)"
    by (simp add: round_quantum_def q)
  have "\<bar>of_int m * pow2 (e - 52)\<bar> \<le> \<bar>x\<bar> + D" unfolding D_def by linarith
  also have "\<dots> < pow2 (e + 1) + pow2 (e - 52)" using assms(4) D qp by linarith
  also have "\<dots> \<le> pow2 1023 + pow2 1023"
    using assms(2) by (intro add_mono pow2_mono) simp_all
  also have "\<dots> = pow2 1024" by (simp add: pow2_def)
  finally have "\<not> pow2 1024 \<le> \<bar>round_quantum x\<bar>" by (simp add: r)
  then show ?thesis using x0 by (simp add: fl_def r)
qed

subsection \<open>Evaluation of the conversions\<close>

lemma floor_rat_numeral:
  "\<lfloor>(numeral a :: rat) / numeral b\<rfloor> = numeral a div numeral b"
  "\<lfloor>(1 :: rat) / numeral b\<rfloor> = 1 div numeral b"
  "\<lfloor>- ((numeral a :: rat) / numeral b)\<rfloor> = - numeral a div numeral b"
  "\<lfloor>- ((1 :: rat) / numeral b)\<rfloor> = - 1 div numeral b"
proof -
  show "\<lfloor>(numeral a :: rat) / numeral b\<rfloor> = numeral a div numeral b"
    by (metis floor_divide_of_int_eq of_int_numeral)
  show "\<lfloor>(1 :: rat) / numeral b\<rfloor> = 1 div numeral b"
    by (metis floor_divide_of_int_eq of_int_numeral of_int_1)
  show "\<lfloor>- ((numeral a :: rat) / numeral b)\<rfloor> = - numeral a div numeral b"
    by (metis floor_divide_of_int_eq of_int_numeral of_int_minus minus_divide_left)
  show "\<lfloor>- ((1 :: rat) / numeral b)\<rfloor> = - 1 div numeral b"
    by (metis floor_divide_of_int_eq of_int_numeral of_int_minus of_int_1 minus_divide_left)
qed

lemma ceiling_rat_numeral:
  "\<lceil>(numeral a :: rat) / numeral b\<rceil> = - (- numeral a div numeral b)"
  "\<lceil>(1 :: rat) / numeral b\<rceil> = - (- 1 div numeral b)"
  "\<lceil>- ((numeral a :: rat) / numeral b)\<rceil> = - (numeral a div numeral b)"
  "\<lceil>- ((1 :: rat) / numeral b)\<rceil> = - (1 div numeral b)"
  unfolding ceiling_def by (simp_all only: floor_rat_numeral minus_minus)

lemmas digits_of_eval =
  digits_of.simps [of "numeral n"] digits_of.simps [of 0] digits_of.simps [of 1] for n

lemma toFixed_Fin:
  "toFixed (Fin r) f =
     (if 10 ^ 21 \<le> \<bar>r\<bar> then toString (Fin r)
      else
        let ds = digits_of \<lfloor>\<bar>r\<bar> * 10 ^ f + 1 / 2\<rfloor>;
            m = replicate (f + 1 - length ds) CHR ''0'' @ ds;
            k = length m
        in (if r < 0 then ''-'' else []) @
           (if f = 0 then m else take (k - f) m @ ''.'' @ drop (k - f) m))"
  "toFixed NaN f = ''NaN''" "toFixed PInf f = ''Infinity''" "toFixed NInf f = ''-Infinity''"
  by (simp_all add: toFixed_def)

lemma fl_dyadic_numeral:
  "numeral n < (2 :: int) ^ 53 \<Longrightarrow> fl (numeral n / 2) = Fin (numeral n / 2)"
  "numeral n < (2 :: int) ^ 53 \<Longrightarrow> fl (numeral n / 4) = Fin (numeral n / 4)"
  "fl (1 / 2) = Fin (1 / 2)" "fl (1 / 4) = Fin (1 / 4)"
  using fl_exact [of "numeral n" "- 1"] fl_exact [of "numeral n" "- 2"]
    fl_exact [of 1 "- 1"] fl_exact [of 1 "- 2"]
  by (simp_all add: pow2_def)

lemmas parse_eval = parseInt_def is_white_space_def is_digit_def digit_of_def digit_value_def
  digits_value_def fl_numeral Let_def

lemma replicate_numeral_eval: "replicate (numeral k) x = x # replicate (pred_numeral k) x"
  by (simp add: numeral_eq_Suc)

lemmas print_eval = toFixed_Fin toString_pos_def digits_of_eval floor_rat_numeral
  replicate_numeral_eval

section \<open>The simulation\<close>

subsection \<open>The year check and the out-of-range branch\<close>

lemma modelPrediction_loading: "modelPrediction lib (s\<lparr>loading := b\<rparr>) = modelPrediction lib s"
  by (simp add: modelPrediction_def split: sum.splits)

lemma handleSimulation_reject:
  assumes "js_lt (parseInt (yearToPredict s)) (Fin 2024)"
  shows "handleSimulation lib s = Some (s\<lparr>result := Some invalidYearResult, loading := False\<rparr>)"
  using assms by (simp add: handleSimulation_def)

lemma handleSimulation_proceed:
  assumes "\<not> js_lt (parseInt (yearToPredict s)) (Fin 2024)"
  shows "handleSimulation lib s =
     (case handleSimulation_try lib (s\<lparr>loading := True\<rparr>) of
        None \<Rightarrow> None
      | Some (Inl e) \<Rightarrow>
          Some (s\<lparr>loading := True, result := Some calculationErrorResult, loading := False\<rparr>)
      | Some (Inr s') \<Rightarrow> Some (s'\<lparr>loading := False\<rparr>))"
  using assms by (simp add: handleSimulation_def)

lemma handleSimulation_out_of_range:
  assumes "\<not> js_lt (parseInt (yearToPredict s)) (Fin 2024)"
    and "modelPrediction lib s = Inr (p, ds)"
    and "outOfRange (data s) p"
  shows "handleSimulation lib s =
    Some (s\<lparr>result := Some (warningResult (data s) p ds), loading := False\<rparr>)"
  using assms
  by (simp add: handleSimulation_proceed handleSimulation_try_def modelPrediction_loading)

lemma modelPrediction_details:
  assumes "modelPrediction lib s = Inr (p, ds)"
  shows "4 \<le> length ds"
  using assms by (auto simp: modelPrediction_def Let_def split: if_splits sum.splits)

lemma handleSimulation_try_result:
  assumes "handleSimulation_try lib s = Some (Inr s')"
  shows "\<exists>r. result s' = Some r \<and> 4 \<le> length (details r)"
  using assms modelPrediction_details [of lib s]
  by (auto simp: handleSimulation_try_def warningResult_def
      split: sum.splits if_splits option.splits prod.splits)

lemma handleSimulation_not_rejected:
  assumes "\<not> js_lt (parseInt (yearToPredict s)) (Fin 2024)"
  shows "handleSimulation lib s \<noteq> Some (s\<lparr>result := Some invalidYearResult, loading := False\<rparr>)"
proof
  assume eq: "handleSimulation lib s = Some (s\<lparr>result := Some invalidYearResult, loading := False\<rparr>)"
  let ?t = "handleSimulation_try lib (s\<lparr>loading := True\<rparr>)"
  from eq assms have c: "(case ?t of None \<Rightarrow> None
      | Some (Inl e) \<Rightarrow>
          Some (s\<lparr>loading := True, result := Some calculationErrorResult, loading := False\<rparr>)
      | Some (Inr s') \<Rightarrow> Some (s'\<lparr>loading := False\<rparr>)) =
     Some (s\<lparr>result := Some invalidYearResult, loading := False\<rparr>)"
    by (simp add: handleSimulation_proceed)
  show False
  proof (cases ?t)
    case None
    with c show False by simp
  next
    case (Some v)
    show False
    proof (cases v)
      case (Inl e)
      with c Some have "result (s\<lparr>loading := True, result := Some calculationErrorResult, loading := False\<rparr>)
          = result (s\<lparr>result := Some invalidYearResult, loading := False\<rparr>)"
        by simp
      then show False by (simp add: calculationErrorResult_def invalidYearResult_def)
    next
      case (Inr s')
      with c Some have "result (s'\<lparr>loading := False\<rparr>)
          = result (s\<lparr>result := Some invalidYearResult, loading := False\<rparr>)"
        by simp
      then have "result s' = Some invalidYearResult" by simp
      moreover from handleSimulation_try_result [of lib "s\<lparr>loading := True\<rparr>" s'] Some Inr
      obtain r where "result s' = Some r" "4 \<le> length (details r)" by auto
      ultimately show False by (simp add: invalidYearResult_def)
    qed
  qed
qed

subsection \<open>The trend-line loop\<close>

text \<open>The loop always ends: every turn makes the array of years longer, and
  \<^verbatim>\<open>push\<close> raises at the length bound.\<close>

lemma push_cases:
  obtains (full) "max_array_length \<le> length xs" "push xs x = Inl RangeError"
  | (room) "length xs < max_array_length" "push xs x = Inr (xs @ [x])"
  by (cases "length xs < max_array_length") (simp_all add: push_def)

lemma predictionLoop_total:
  "\<exists>r. predictionLoop lib dat mdl py step yr line = Some r"
proof (induction "max_array_length - length (years line)" arbitrary: yr line rule: less_induct)
  case less
  show ?case
  proof (cases "js_le yr py")
    case False
    then show ?thesis by (subst predictionLoop.simps) simp
  next
    case le: True
    let ?cur = "toString yr"
    show ?thesis
    proof (cases "years line" ?cur rule: push_cases)
      case full
      then show ?thesis using le by (subst predictionLoop.simps) (simp add: Let_def)
    next
      case room
      show ?thesis
      proof (cases "mdl = polynomial")
        case True
        show ?thesis
        proof (cases "calculatePolynomialRegression lib dat ?cur")
          case (Inl e)
          then show ?thesis using le room True
            by (subst predictionLoop.simps) (simp add: Let_def)
        next
          case (Inr r)
          show ?thesis
          proof (cases "temps line" "poly_prediction r" rule: push_cases)
            case full
            then show ?thesis using le room True Inr
              by (subst predictionLoop.simps) (simp add: Let_def)
          next
            case room': room
            have "\<exists>r'. predictionLoop lib dat mdl py step (js_add yr step)
                \<lparr>years = years line @ [?cur], temps = temps line @ [poly_prediction r]\<rparr> = Some r'"
              by (rule less.hyps) (use room in simp)
            then show ?thesis using le room True Inr room'
              by (subst predictionLoop.simps) (simp add: Let_def)
          qed
        qed
      next
        case False
        let ?t = "mavg_prediction (calculateMovingAverage dat ?cur)"
        show ?thesis
        proof (cases "temps line" ?t rule: push_cases)
          case full
          then show ?thesis using le room False
            by (subst predictionLoop.simps) (simp add: Let_def)
        next
          case room': room
          have "\<exists>r'. predictionLoop lib dat mdl py step (js_add yr step)
              \<lparr>years = years line @ [?cur], temps = temps line @ [?t]\<rparr> = Some r'"
            by (rule less.hyps) (use room in simp)
          then show ?thesis using le room False room'
            by (subst predictionLoop.simps) (simp add: Let_def)
        qed
      qed
    qed
  qed
qed

text \<open>A loop whose year does not advance ends with an exception: that of
  \<^verbatim>\<open>push\<close>, unless the polynomial predictor raises first.\<close>

lemma predictionLoop_stalled:
  assumes le: "js_le yr py" and nxt: "js_add yr step = yr"
  shows "\<exists>e. predictionLoop lib dat mdl py step yr line = Some (Inl e)
           \<and> (mdl \<noteq> polynomial \<longrightarrow> e = RangeError)"
proof (induction "max_array_length - length (years line)" arbitrary: line rule: less_induct)
  case less
  let ?cur = "toString yr"
  show ?case
  proof (cases "years line" ?cur rule: push_cases)
    case full
    then show ?thesis using le by (subst predictionLoop.simps) (simp add: Let_def)
  next
    case room
    show ?thesis
    proof (cases "mdl = polynomial")
      case True
      show ?thesis
      proof (cases "calculatePolynomialRegression lib dat ?cur")
        case (Inl e)
        then show ?thesis using le room True
          by (subst predictionLoop.simps) (simp add: Let_def)
      next
        case (Inr r)
        show ?thesis
        proof (cases "temps line" "poly_prediction r" rule: push_cases)
          case full
          then show ?thesis using le room True Inr
            by (subst predictionLoop.simps) (simp add: Let_def)
        next
          case room': room
          have "\<exists>e. predictionLoop lib dat mdl py step yr
              \<lparr>years = years line @ [?cur], temps = temps line @ [poly_prediction r]\<rparr> = Some (Inl e)
              \<and> (mdl \<noteq> polynomial \<longrightarrow> e = RangeError)"
            by (rule less.hyps) (use room in simp)
          then show ?thesis using le nxt room True Inr room'
            by (subst predictionLoop.simps) (simp add: Let_def)
        qed
      qed
    next
      case False
      let ?t = "mavg_prediction (calculateMovingAverage dat ?cur)"
      show ?thesis
      proof (cases "temps line" ?t rule: push_cases)
        case full
        then show ?thesis using le room False
          by (subst predictionLoop.simps) (simp add: Let_def)
      next
        case room': room
        have "\<exists>e. predictionLoop lib dat mdl py step yr
            \<lparr>years = years line @ [?cur], temps = temps line @ [?t]\<rparr> = Some (Inl e)
            \<and> (mdl \<noteq> polynomial \<longrightarrow> e = RangeError)"
          by (rule less.hyps) (use room in simp)
        then show ?thesis using le nxt room False room'
          by (subst predictionLoop.simps) (simp add: Let_def)
      qed
    qed
  qed
qed

lemma same_year_start:
  assumes "fl t = Fin t"
  shows "Math_ceil (js_div (js_sub (Fin t) (Fin t)) (Fin 5)) = Fin 0"
    and "js_add (Fin t) (Fin 0) = Fin t"
  using assms by (simp_all add: js_sub_def fl_numeral)

text \<open>With the target year equal to the last observed year the step is zero and the loop
  starts at that year: the call raises and returns no line.\<close>

lemma generatePredictionLine_same_year:
  assumes "length dat \<noteq> 0"
    and "parseInt (year (dat ! (length dat - 1))) = Fin t"
    and "parseInt input = Fin t"
    and "fl t = Fin t"
  shows "\<exists>e. generatePredictionLine lib dat input p mdl = Some (Inl e)
           \<and> (mdl \<noteq> polynomial \<longrightarrow> e = RangeError)"
proof -
  let ?line0 = "\<lparr>years = [toString (Fin t)], temps = [five_year_smooth (dat ! (length dat - 1))]\<rparr>"
  have le: "js_le (Fin t) (Fin t)" by simp
  from predictionLoop_stalled [OF le same_year_start(2) [OF assms(4)], of lib dat mdl ?line0]
  obtain e where e: "predictionLoop lib dat mdl (Fin t) (Fin 0) (Fin t) ?line0 = Some (Inl e)"
    "mdl \<noteq> polynomial \<longrightarrow> e = RangeError" by blast
  have "generatePredictionLine lib dat input p mdl = Some (Inl e)"
    using assms(1-3) same_year_start [OF assms(4)] e(1)
    by (simp add: generatePredictionLine_def Let_def del: toString.simps)
  with e(2) show ?thesis by blast
qed

text \<open>With a step of at least one between integer years the loop returns after a few
  turns, far from the length bound, and it only appends to the line it was given.\<close>

lemma length_ge_3: "3 \<le> length xs \<Longrightarrow> \<exists>a b c rest. xs = a # b # c # rest"
  by (auto simp: numeral_3_eq_3 Suc_le_length_iff)

lemma calculatePolynomialRegression_returns:
  assumes "\<And>pts. 3 \<le> length (reg_equation (lib pts 2 8))"
  shows "\<exists>r. calculatePolynomialRegression lib dat targetYear = Inr r"
proof (cases "length dat = 0")
  case True
  then show ?thesis by (simp add: calculatePolynomialRegression_def)
next
  case False
  let ?pts = "map (\<lambda>d. (js_sub (Number (year d)) (Fin 1900), five_year_smooth d)) dat"
  from length_ge_3 [OF assms [of ?pts]]
  obtain a b c rest where "reg_equation (lib ?pts 2 8) = a # b # c # rest" by blast
  then show ?thesis using False by (simp add: calculatePolynomialRegression_def Let_def)
qed

lemma turns_bound:
  fixes k d :: int
  assumes "int n * k \<le> d" and "d \<le> int c * k" and "1 \<le> k"
  shows "n \<le> c"
proof -
  from assms have "int n * k \<le> int c * k" by linarith
  with assms(3) have "int n \<le> int c" by (simp add: mult_le_cancel_right)
  then show ?thesis by simp
qed

lemma push_room: "length xs \<le> 9 \<Longrightarrow> push xs x = Inr (xs @ [x])"
  by (simp add: push_def max_array_length_def)

lemma predictionLoop_returns:
  fixes L T k y :: int
  assumes lib: "mdl = polynomial \<longrightarrow> (\<forall>pts. 3 \<le> length (reg_equation (lib pts 2 8)))"
    and k: "1 \<le> k" and bound: "T + k \<le> 2 ^ 53" and span: "T - L \<le> 8 * k"
  shows "- (2 ^ 53) \<le> y \<Longrightarrow> years line \<noteq> [] \<Longrightarrow>
    int (length (years line)) * k \<le> y - L \<Longrightarrow> y \<le> T + k \<Longrightarrow>
    length (temps line) = length (years line) \<Longrightarrow>
    \<exists>line'. predictionLoop lib dat mdl (Fin (of_int T)) (Fin (of_int k)) (Fin (of_int y)) line
               = Some (Inr line')
           \<and> years line' \<noteq> [] \<and> hd (years line') = hd (years line)
           \<and> length (years line') \<le> 9 \<and> length (temps line') = length (years line')"
proof (induction "nat (T + 1 - y)" arbitrary: y line rule: less_induct)
  case less
  show ?case
  proof (cases "T < y")
    case True
    have "y - L \<le> int 9 * k" using less.prems(4) span by linarith
    from turns_bound [OF less.prems(3) this k] have "length (years line) \<le> 9" .
    then show ?thesis using True less.prems
      by (subst predictionLoop.simps) simp
  next
    case False
    then have le: "js_le (Fin (of_int y)) (Fin (of_int T))" by simp
    have "\<bar>y + k\<bar> \<le> 2 ^ 53" using False k bound less.prems(1) by linarith
    then have "fl (of_int (y + k)) = Fin (of_int (y + k))" by (rule fl_of_int)
    then have nxt: "js_add (Fin (of_int y)) (Fin (of_int k)) = Fin (of_int (y + k))" by simp
    have dec: "nat (T + 1 - (y + k)) < nat (T + 1 - y)" using False k by linarith
    have lo: "- (2 ^ 53) \<le> y + k" using less.prems(1) k by linarith
    have "y - L \<le> int 8 * k" using False span by linarith
    from turns_bound [OF less.prems(3) this k] have n: "length (years line) \<le> 8" .
    then have room: "push (years line) x = Inr (years line @ [x])"
      "push (temps line) t = Inr (temps line @ [t])" for x t
      using less.prems(5) by (simp_all add: push_room)
    have inv: "int (length (years line @ [x])) * k \<le> y + k - L" for x :: string
      using less.prems(3) by (simp add: algebra_simps)
    have up: "y + k \<le> T + k" using False by linarith
    let ?cur = "toString (Fin (of_int y))"
    show ?thesis
    proof (cases "mdl = polynomial")
      case True
      from lib True have "\<And>pts. 3 \<le> length (reg_equation (lib pts 2 8))" by blast
      from calculatePolynomialRegression_returns [of lib dat ?cur, OF this]
      obtain r where r: "calculatePolynomialRegression lib dat ?cur = Inr r" by blast
      let ?line = "\<lparr>years = years line @ [?cur], temps = temps line @ [poly_prediction r]\<rparr>"
      have "\<exists>line'. predictionLoop lib dat mdl (Fin (of_int T)) (Fin (of_int k))
                (Fin (of_int (y + k))) ?line = Some (Inr line')
           \<and> years line' \<noteq> [] \<and> hd (years line') = hd (years ?line)
           \<and> length (years line') \<le> 9 \<and> length (temps line') = length (years line')"
        by (rule less.hyps [OF dec lo]) (use inv up less.prems(5) in simp_all)
      then show ?thesis using le nxt True r less.prems(2) room
        by (subst predictionLoop.simps) (simp add: Let_def)
    next
      case False
      let ?line = "\<lparr>years = years line @ [?cur],
        temps = temps line @ [mavg_prediction (calculateMovingAverage dat ?cur)]\<rparr>"
      have "\<exists>line'. predictionLoop lib dat mdl (Fin (of_int T)) (Fin (of_int k))
                (Fin (of_int (y + k))) ?line = Some (Inr line')
           \<and> years line' \<noteq> [] \<and> hd (years line') = hd (years ?line)
           \<and> length (years line') \<le> 9 \<and> length (temps line') = length (years line')"
        by (rule less.hyps [OF dec lo]) (use inv up less.prems(5) in simp_all)
      then show ?thesis using le nxt False less.prems(2) room
        by (subst predictionLoop.simps) (simp add: Let_def)
    qed
  qed
qed

lemma year_step:
  fixes d :: int
  assumes "1 \<le> d" "d \<le> 2 ^ 52"
  shows "\<exists>k. Math_ceil (js_div (Fin (of_int d)) (Fin 5)) = Fin (of_int k)
           \<and> 1 \<le> k \<and> k \<le> d \<and> d \<le> 8 * k"
proof -
  let ?x = "of_int d / 5 :: rat"
  have "\<bar>d\<bar> < 2 ^ 53" using assms by simp
  from fl_exact [OF this, of "- 3"]
  have f8: "fl (of_int d / 8) = Fin (of_int d / 8)" by (simp add: pow2_def)
  have "\<bar>d\<bar> \<le> 2 ^ 53" using assms by simp
  then have fd: "fl (of_int d) = Fin (of_int d)" by (rule fl_of_int)
  have "(1 :: rat) \<le> of_int d" using assms(1) by simp
  then have x: "of_int d / 8 \<le> ?x" "?x \<le> of_int d" by simp_all
  from fl_mono [OF x(1)] fl_mono [OF x(2)] fl_not_NaN [of ?x]
  obtain r where r: "fl ?x = Fin r" "of_int d / 8 \<le> r" "r \<le> of_int d"
    by (cases "fl ?x") (auto simp: f8 fd)
  have "0 < r" using r(2) \<open>1 \<le> of_int d\<close> by linarith
  then have "1 \<le> \<lceil>r\<rceil>" by (simp add: less_ceiling_iff)
  moreover have "\<lceil>r\<rceil> \<le> d" using r(3) by (simp add: ceiling_le_iff)
  moreover have "d \<le> 8 * \<lceil>r\<rceil>"
  proof -
    have "r \<le> of_int \<lceil>r\<rceil>" by (rule le_of_int_ceiling)
    with r(2) have "(of_int d :: rat) \<le> 8 * of_int \<lceil>r\<rceil>" by linarith
    then have "(of_int d :: rat) \<le> of_int (8 * \<lceil>r\<rceil>)" by simp
    then show ?thesis by (simp only: of_int_le_iff)
  qed
  moreover have "Math_ceil (js_div (Fin (of_int d)) (Fin 5)) = Fin (of_int \<lceil>r\<rceil>)"
    using r(1) by simp
  ultimately show ?thesis by blast
qed

lemma generatePredictionLine_returns:
  fixes L T :: int
  assumes dat: "length dat \<noteq> 0"
    and last: "parseInt (year (dat ! (length dat - 1))) = Fin (of_int L)"
    and target: "parseInt input = Fin (of_int T)"
    and lt: "L < T" and lo: "- (2 ^ 51) \<le> L" and hi: "T \<le> 2 ^ 51"
    and lib: "mdl = polynomial \<longrightarrow> (\<forall>pts. 3 \<le> length (reg_equation (lib pts 2 8)))"
  shows "\<exists>line. generatePredictionLine lib dat input p mdl = Some (Inr line)
           \<and> years line \<noteq> []
           \<and> hd (years line) = toString (Fin (of_int L))
           \<and> last (years line) = toString (Fin (of_int T))"
proof -
  have p: "(2 :: int) ^ 53 = 4 * 2 ^ 51" "(2 :: int) ^ 52 = 2 * 2 ^ 51" "(0 :: int) \<le> 2 ^ 51"
    by simp_all
  have d: "1 \<le> T - L" "T - L \<le> 2 ^ 52" using lt lo hi p by linarith+
  have "\<bar>T - L\<bar> \<le> 2 ^ 53" using d p by linarith
  then have "fl (of_int (T - L)) = Fin (of_int (T - L))" by (rule fl_of_int)
  then have sub: "js_sub (Fin (of_int T)) (Fin (of_int L)) = Fin (of_int (T - L))"
    by (simp add: js_sub_def)
  from year_step [OF d] obtain k
    where k: "Math_ceil (js_div (Fin (of_int (T - L))) (Fin 5)) = Fin (of_int k)" "1 \<le> k"
      "k \<le> T - L" "T - L \<le> 8 * k"
    by blast
  have "\<bar>L + k\<bar> \<le> 2 ^ 53" using k lo hi p by linarith
  then have "fl (of_int (L + k)) = Fin (of_int (L + k))" by (rule fl_of_int)
  then have start: "js_add (Fin (of_int L)) (Fin (of_int k)) = Fin (of_int (L + k))" by simp
  let ?line0 = "\<lparr>years = [toString (Fin (of_int L))],
                  temps = [five_year_smooth (dat ! (length dat - 1))]\<rparr>"
  have b: "T + k \<le> 2 ^ 53" using k lo hi p by linarith
  have l: "- (2 ^ 53) \<le> L + k" using k lo p by linarith
  have n: "years ?line0 \<noteq> []" by simp
  have i: "int (length (years ?line0)) * k \<le> L + k - L" by simp
  have u: "L + k \<le> T + k" using lt by simp
  have e: "length (temps ?line0) = length (years ?line0)" by simp
  from predictionLoop_returns [where lib = lib and mdl = mdl and k = k and T = T and L = L
      and y = "L + k" and line = ?line0 and dat = dat] lib k(2) b k(4) l n i u e
  obtain line where line:
    "predictionLoop lib dat mdl (Fin (of_int T)) (Fin (of_int k)) (Fin (of_int (L + k))) ?line0
       = Some (Inr line)" "years line \<noteq> []" "hd (years line) = hd (years ?line0)"
    "length (years line) \<le> 9" "length (temps line) = length (years line)"
    by blast
  have nth: "years line ! (length (years line) - 1) = last (years line)"
    using line(2) by (simp add: last_conv_nth)
  have room: "push (years line) x = Inr (years line @ [x])"
    "push (temps line) t = Inr (temps line @ [t])" for x t
    using line(4,5) by (simp_all add: push_room)
  show ?thesis
    using dat last target sub k(1) start line(1-3) nth room
    by (simp add: generatePredictionLine_def Let_def del: toString.simps)
qed

text \<open>So the trend line and the simulation always return: with a line, or with an
  exception that the \<^verbatim>\<open>catch\<close> of \<open>handleSimulation\<close> turns into its error
  result.\<close>

lemma generatePredictionLine_total:
  "\<exists>r. generatePredictionLine lib dat input p mdl = Some r"
proof (cases "length dat = 0")
  case True
  then show ?thesis by (simp add: generatePredictionLine_def)
next
  case False
  let ?last = "parseInt (year (dat ! (length dat - 1)))"
  let ?step = "Math_ceil (js_div (js_sub (parseInt input) ?last) (Fin 5))"
  from predictionLoop_total [of lib dat mdl "parseInt input" ?step "js_add ?last ?step"
      "\<lparr>years = [toString ?last], temps = [five_year_smooth (dat ! (length dat - 1))]\<rparr>"]
  obtain r where "predictionLoop lib dat mdl (parseInt input) ?step (js_add ?last ?step)
      \<lparr>years = [toString ?last], temps = [five_year_smooth (dat ! (length dat - 1))]\<rparr> = Some r"
    by blast
  then show ?thesis using False
    by (simp add: generatePredictionLine_def Let_def del: toString.simps
        split: sum.splits)
qed

lemma handleSimulation_total: "\<exists>s'. handleSimulation lib s = Some s'"
proof -
  let ?s = "s\<lparr>loading := True\<rparr>"
  have "\<exists>r. handleSimulation_try lib ?s = Some r"
  proof (cases "modelPrediction lib ?s")
    case (Inl e)
    then show ?thesis by (simp add: handleSimulation_try_def)
  next
    case (Inr pd)
    obtain p ds where pd: "pd = (p, ds)" by (cases pd)
    from generatePredictionLine_total [of lib "data ?s" "yearToPredict ?s" p "selectedModel ?s"]
    obtain r where "generatePredictionLine lib (data ?s) (yearToPredict ?s) p (selectedModel ?s)
        = Some r" by blast
    then show ?thesis using Inr pd
      by (simp add: handleSimulation_try_def split: sum.splits)
  qed
  then show ?thesis
    by (auto simp: handleSimulation_def Let_def split: sum.splits)
qed

subsection \<open>The allowed range\<close>

lemma js_le_refl: "x \<noteq> NaN \<Longrightarrow> js_le x x"
  by (cases x) simp_all

lemma js_le_trans: "js_le x y \<Longrightarrow> js_le y z \<Longrightarrow> js_le x z"
  by (cases x; cases y; cases z) simp_all

lemma js_le_not_lt: "x \<noteq> NaN \<Longrightarrow> y \<noteq> NaN \<Longrightarrow> js_le x y = (\<not> js_lt y x)"
  by (cases x; cases y) simp_all

lemma js_le_NInf: "js_le NInf y = (y \<noteq> NaN)"
  by (cases y) simp_all

lemma js_le_PInf: "js_le x PInf = (x \<noteq> NaN)"
  by (cases x) simp_all

lemma js_lt_irrefl: "\<not> js_lt x x"
  by (cases x) simp_all

lemma foldl_highest:
  assumes "NaN \<notin> set xs" "h \<noteq> NaN"
  shows "foldl (\<lambda>highest x. if js_lt highest x then x else highest) h xs \<noteq> NaN
    \<and> js_le h (foldl (\<lambda>highest x. if js_lt highest x then x else highest) h xs)
    \<and> (\<forall>x \<in> set xs. js_le x (foldl (\<lambda>highest x. if js_lt highest x then x else highest) h xs))"
  using assms
proof (induction xs arbitrary: h)
  case Nil
  then show ?case by (simp add: js_le_refl)
next
  case (Cons a xs)
  let ?h = "if js_lt h a then a else h"
  have a: "a \<noteq> NaN" "NaN \<notin> set xs" using Cons.prems by auto
  have h: "?h \<noteq> NaN" using a Cons.prems by simp
  have step: "js_le h ?h" "js_le a ?h"
    using a Cons.prems(2) by (cases h; cases a; simp)+
  from Cons.IH [OF a(2) h] step show ?case
    by (auto intro: js_le_trans)
qed

lemma foldl_lowest:
  assumes "NaN \<notin> set xs" "l \<noteq> NaN"
  shows "foldl (\<lambda>lowest x. if js_lt x lowest then x else lowest) l xs \<noteq> NaN
    \<and> js_le (foldl (\<lambda>lowest x. if js_lt x lowest then x else lowest) l xs) l
    \<and> (\<forall>x \<in> set xs. js_le (foldl (\<lambda>lowest x. if js_lt x lowest then x else lowest) l xs) x)"
  using assms
proof (induction xs arbitrary: l)
  case Nil
  then show ?case by (simp add: js_le_refl)
next
  case (Cons a xs)
  let ?l = "if js_lt a l then a else l"
  have a: "a \<noteq> NaN" "NaN \<notin> set xs" using Cons.prems by auto
  have l: "?l \<noteq> NaN" using a Cons.prems by simp
  have step: "js_le ?l l" "js_le ?l a"
    using a Cons.prems(2) by (cases l; cases a; simp)+
  from Cons.IH [OF a(2) l] step show ?case
    by (auto intro: js_le_trans)
qed

lemma Math_min_le_max:
  assumes "xs \<noteq> []" "NaN \<notin> set xs"
  shows "js_le (Math_min xs) (Math_max xs)"
proof -
  obtain x where x: "x \<in> set xs" using assms(1) by (cases xs) auto
  from foldl_lowest [OF assms(2), of PInf] x have "js_le (Math_min xs) x"
    using assms(2) by (simp add: Math_min_def)
  moreover from foldl_highest [OF assms(2), of NInf] x have "js_le x (Math_max xs)"
    using assms(2) by (simp add: Math_max_def)
  ultimately show ?thesis by (rule js_le_trans)
qed

lemma allowed_order:
  assumes "js_le mn mx"
  shows "js_le (js_sub mn margin) (js_add mx margin)"
proof (cases mn)
  case (Fin a)
  show ?thesis
  proof (cases mx)
    case (Fin b)
    have "a \<le> b" using assms \<open>mn = Fin a\<close> Fin by simp
    then have "a + - (3 / 2) \<le> b + 3 / 2" by simp
    from fl_mono [OF this] show ?thesis using \<open>mn = Fin a\<close> Fin
      by (simp add: js_sub_def margin_def)
  qed (use assms Fin fl_not_NaN in \<open>simp_all add: js_sub_def margin_def js_le_PInf\<close>)
next
  case NInf
  then show ?thesis using assms fl_not_NaN
    by (cases mx) (simp_all add: js_sub_def margin_def js_le_NInf)
qed (use assms in \<open>cases mx; simp add: js_sub_def margin_def\<close>)+

lemma NaN_propagates:
  "js_add x margin \<noteq> NaN \<Longrightarrow> x \<noteq> NaN" "js_sub x margin \<noteq> NaN \<Longrightarrow> x \<noteq> NaN"
  by (cases x; simp add: js_sub_def margin_def)+

lemma Math_not_NaN:
  "Math_max xs \<noteq> NaN \<Longrightarrow> NaN \<notin> set xs" "Math_min xs \<noteq> NaN \<Longrightarrow> NaN \<notin> set xs"
  by (simp_all add: Math_max_def Math_min_def split: if_splits)

lemma allowed_range_order:
  assumes "dat \<noteq> []" "allowedMin dat \<noteq> NaN \<or> allowedMax dat \<noteq> NaN"
  shows "js_le (allowedMin dat) (allowedMax dat)"
proof -
  from assms(2) have "NaN \<notin> set (map annual_mean dat)"
  proof
    assume "allowedMin dat \<noteq> NaN"
    then have "minTemp dat \<noteq> NaN" unfolding allowedMin_def by (rule NaN_propagates)
    then show ?thesis unfolding minTemp_def by (rule Math_not_NaN)
  next
    assume "allowedMax dat \<noteq> NaN"
    then have "maxTemp dat \<noteq> NaN" unfolding allowedMax_def by (rule NaN_propagates)
    then show ?thesis unfolding maxTemp_def by (rule Math_not_NaN)
  qed
  moreover have "map annual_mean dat \<noteq> []" using assms(1) by simp
  ultimately have "js_le (minTemp dat) (maxTemp dat)"
    unfolding minTemp_def maxTemp_def by (intro Math_min_le_max)
  then show ?thesis unfolding allowedMin_def allowedMax_def by (rule allowed_order)
qed

subsection \<open>Evaluation of the sample inputs\<close>

lemma parseInt_samples:
  "parseInt ''2020'' = Fin 2020" "parseInt ''2022'' = Fin 2022" "parseInt ''2024'' = Fin 2024"
  "parseInt ''2025'' = Fin 2025" "parseInt ''2026'' = Fin 2026" "parseInt ''2027'' = Fin 2027"
  "parseInt ''2028'' = Fin 2028" "parseInt ''2030'' = Fin 2030" "parseInt ''2040'' = Fin 2040"
  "parseInt '''' = NaN"
  by (simp_all add: parse_eval)

lemma series_2024_facts:
  "series_2024 \<noteq> []" "drop (length series_2024 - 5) series_2024 = series_2024"
  "year (series_2024 ! (length series_2024 - Suc 0)) = ''2024''"
  "five_year_smooth (series_2024 ! (length series_2024 - Suc 0)) = Fin 30"
  "avgTemp series_2024 = Fin 30" "yearlyChange series_2024 = Fin 0"
  "minTemp series_2024 = Fin 26" "maxTemp series_2024 = Fin 26"
  "allowedMin series_2024 = Fin (49 / 2)" "allowedMax series_2024 = Fin (55 / 2)"
  by (simp_all add: series_2024_def avgTemp_def yearlyChange_def allowedMin_def allowedMax_def
      minTemp_def maxTemp_def Math_min_def Math_max_def margin_def js_sub_def
      fl_numeral fl_dyadic_numeral)

lemma series_2023_facts:
  "series_2023 \<noteq> []" "drop (length series_2023 - 5) series_2023 = series_2023"
  "year (series_2023 ! (length series_2023 - Suc 0)) = ''2024''"
  "five_year_smooth (series_2023 ! (length series_2023 - Suc 0)) = Fin 27"
  "avgTemp series_2023 = Fin (53 / 2)" "yearlyChange series_2023 = Fin (1 / 4)"
  "minTemp series_2023 = Fin 26" "maxTemp series_2023 = Fin 27"
  "allowedMin series_2023 = Fin (49 / 2)" "allowedMax series_2023 = Fin (57 / 2)"
  by (simp_all add: series_2023_def avgTemp_def yearlyChange_def allowedMin_def allowedMax_def
      minTemp_def maxTemp_def Math_min_def Math_max_def margin_def js_sub_def
      fl_numeral fl_dyadic_numeral)

text \<open>The roundings of the specification's example, each with its certificate.\<close>

lemma series_2018_roundings:
  "fl (131 / 5) = Fin (7374644389819187 / 281474976710656)"
  "fl (132 / 5) = Fin (3715469692580659 / 140737488355328)"
  "fl (133 / 5) = Fin (3743617190251725 / 140737488355328)"
  "fl (134 / 5) = Fin (7543529375845581 / 281474976710656)"
  "fl (14692993784296243 / 281474976710656) = Fin (3673248446074061 / 70368744177664)"
  "fl (11061966584728781 / 140737488355328) = Fin (2765491646182195 / 35184372088832)"
  "fl (14805583774980505 / 140737488355328) = Fin (1850697971872563 / 17592186044416)"
  "fl (37154696925806589 / 281474976710656) = Fin 132"
  "fl (225179981368525 / 281474976710656) = Fin (225179981368525 / 281474976710656)"
  "fl (225179981368525 / 1125899906842624) = Fin (225179981368525 / 1125899906842624)"
  "fl (225179981368525 / 140737488355328) = Fin (225179981368525 / 140737488355328)"
  "fl (5629499534213125 / 281474976710656) = Fin (5629499534213125 / 281474976710656)"
proof -
  show "fl (131 / 5) = Fin (7374644389819187 / 281474976710656)"
    using fl_certificate [of "4" "131 / 5" "7374644389819187"] by (simp add: pow2_def)
  show "fl (132 / 5) = Fin (3715469692580659 / 140737488355328)"
    using fl_certificate [of "4" "132 / 5" "7430939385161318"] by (simp add: pow2_def)
  show "fl (133 / 5) = Fin (3743617190251725 / 140737488355328)"
    using fl_certificate [of "4" "133 / 5" "7487234380503450"] by (simp add: pow2_def)
  show "fl (134 / 5) = Fin (7543529375845581 / 281474976710656)"
    using fl_certificate [of "4" "134 / 5" "7543529375845581"] by (simp add: pow2_def)
  show "fl (14692993784296243 / 281474976710656) = Fin (3673248446074061 / 70368744177664)"
    using fl_certificate [of "5" "14692993784296243 / 281474976710656" "7346496892148122"]
    by (simp add: pow2_def)
  show "fl (11061966584728781 / 140737488355328) = Fin (2765491646182195 / 35184372088832)"
    using fl_certificate [of "6" "11061966584728781 / 140737488355328" "5530983292364390"]
    by (simp add: pow2_def)
  show "fl (14805583774980505 / 140737488355328) = Fin (1850697971872563 / 17592186044416)"
    using fl_certificate [of "6" "14805583774980505 / 140737488355328" "7402791887490252"]
    by (simp add: pow2_def)
  show "fl (37154696925806589 / 281474976710656) = Fin 132"
    using fl_certificate [of "7" "37154696925806589 / 281474976710656" "4644337115725824"]
    by (simp add: pow2_def)
  show "fl (225179981368525 / 281474976710656) = Fin (225179981368525 / 281474976710656)"
    using fl_certificate [of "- 1" "225179981368525 / 281474976710656" "7205759403792800"]
    by (simp add: pow2_def)
  show "fl (225179981368525 / 1125899906842624) = Fin (225179981368525 / 1125899906842624)"
    using fl_certificate [of "- 3" "225179981368525 / 1125899906842624" "7205759403792800"]
    by (simp add: pow2_def)
  show "fl (225179981368525 / 140737488355328) = Fin (225179981368525 / 140737488355328)"
    using fl_certificate [of "0" "225179981368525 / 140737488355328" "7205759403792800"]
    by (simp add: pow2_def)
  show "fl (5629499534213125 / 281474976710656) = Fin (5629499534213125 / 281474976710656)"
    using fl_certificate [of "4" "5629499534213125 / 281474976710656" "5629499534213125"]
    by (simp add: pow2_def)
qed

lemma series_2018_facts:
  "series_2018 \<noteq> []" "drop (length series_2018 - 5) series_2018 = series_2018"
  "year (series_2018 ! (length series_2018 - Suc 0)) = ''2022''"
  "avgTemp series_2018 = Fin (3715469692580659 / 140737488355328)"
  "yearlyChange series_2018 = Fin (225179981368525 / 1125899906842624)"
  by (simp_all add: series_2018_def avgTemp_def yearlyChange_def js_sub_def
      fl_numeral series_2018_roundings)

lemma movingAverage_2024:
  "calculateMovingAverage series_2024 ''2024'' =
     \<lparr>mavg_prediction = Fin 30,
      mavg_description = ''Based on 5-year moving average:'' @ [CHR 0x0A] @
        ''Last 5 years average: 30.00'' @ [CHR 0xB0, CHR ''C'', CHR 0x0A] @
        ''Rate of change: 0.0000'' @ [CHR 0xB0] @ ''C per year''\<rparr>"
  by (simp add: calculateMovingAverage_def series_2024_facts parseInt_samples js_sub_def
      js_gt_def fl_numeral print_eval)

lemma movingAverage_2040:
  "calculateMovingAverage series_2023 ''2040'' =
     \<lparr>mavg_prediction = Fin (61 / 2),
      mavg_description = ''Based on 5-year moving average:'' @ [CHR 0x0A] @
        ''Last 5 years average: 26.50'' @ [CHR 0xB0, CHR ''C'', CHR 0x0A] @
        ''Rate of change: +25.0000'' @ [CHR 0xB0] @ ''C per year''\<rparr>"
  by (simp add: calculateMovingAverage_def series_2023_facts parseInt_samples js_sub_def
      js_gt_def fl_numeral fl_dyadic_numeral print_eval)

lemma movingAverage_empty_year:
  "calculateMovingAverage series_2023 '''' =
     \<lparr>mavg_prediction = NaN,
      mavg_description = ''Based on 5-year moving average:'' @ [CHR 0x0A] @
        ''Last 5 years average: 26.50'' @ [CHR 0xB0, CHR ''C'', CHR 0x0A] @
        ''Rate of change: +25.0000'' @ [CHR 0xB0] @ ''C per year''\<rparr>"
  by (simp add: calculateMovingAverage_def series_2023_facts parseInt_samples js_sub_def
      js_gt_def fl_numeral fl_dyadic_numeral print_eval)

subsection \<open>Runs of the sample inputs\<close>

lemma modelPrediction_2024:
  "modelPrediction lib (initial_state series_2024 moving_average ''2024'') =
     Inr (Fin 30,
          [''Prediction Model: 5-Year Moving Average'', ''Target Year: 2024'',
           ''Predicted Temperature: 30.00'' @ [CHR 0xB0, CHR ''C''],
           ''Based on 5-year moving average:'' @ [CHR 0x0A] @
           ''Last 5 years average: 30.00'' @ [CHR 0xB0, CHR ''C'', CHR 0x0A] @
           ''Rate of change: 0.0000'' @ [CHR 0xB0] @ ''C per year''])"
  by (simp add: modelPrediction_def initial_state_def movingAverage_2024 print_eval)

lemma modelPrediction_2040:
  "modelPrediction lib (initial_state series_2023 moving_average ''2040'') =
     Inr (Fin (61 / 2),
          [''Prediction Model: 5-Year Moving Average'', ''Target Year: 2040'',
           ''Predicted Temperature: 30.50'' @ [CHR 0xB0, CHR ''C''],
           ''Based on 5-year moving average:'' @ [CHR 0x0A] @
           ''Last 5 years average: 26.50'' @ [CHR 0xB0, CHR ''C'', CHR 0x0A] @
           ''Rate of change: +25.0000'' @ [CHR 0xB0] @ ''C per year''])"
  by (simp add: modelPrediction_def initial_state_def movingAverage_2040 print_eval)

lemma modelPrediction_empty_year:
  "modelPrediction lib (initial_state series_2023 moving_average '''') =
     Inr (NaN,
          [''Prediction Model: 5-Year Moving Average'', ''Target Year: '',
           ''Predicted Temperature: NaN'' @ [CHR 0xB0, CHR ''C''],
           ''Based on 5-year moving average:'' @ [CHR 0x0A] @
           ''Last 5 years average: 26.50'' @ [CHR 0xB0, CHR ''C'', CHR 0x0A] @
           ''Rate of change: +25.0000'' @ [CHR 0xB0] @ ''C per year''])"
  by (simp add: modelPrediction_def initial_state_def movingAverage_empty_year print_eval)

text \<open>On an input that is not a number the trend line gets the label \<open>NaN\<close>: the
  loop's condition is false at once, and the final point is appended.\<close>

lemma generatePredictionLine_empty_year:
  "generatePredictionLine lib series_2023 '''' NaN moving_average =
     Some (Inr \<lparr>years = [''2024'', ''NaN''], temps = [Fin 27, NaN]\<rparr>)"
proof -
  have "predictionLoop lib series_2023 moving_average NaN NaN NaN line = Some (Inr line)" for line
    by (subst predictionLoop.simps) simp
  then show ?thesis
    by (simp add: generatePredictionLine_def series_2023_facts parseInt_samples js_sub_def
        print_eval push_def max_array_length_def)
qed

lemma handleSimulation_empty_year:
  "handleSimulation lib (initial_state series_2023 moving_average '''') =
     Some ((initial_state series_2023 moving_average '''')
             \<lparr>predictionLine := \<lparr>years = [''2024'', ''NaN''], temps = [Fin 27, NaN]\<rparr>,
              result := Some
                \<lparr>prediction = NaN,
                 details =
                   [''Prediction Model: 5-Year Moving Average'', ''Target Year: '',
                    ''Predicted Temperature: NaN'' @ [CHR 0xB0, CHR ''C''],
                    ''Based on 5-year moving average:'' @ [CHR 0x0A] @
                    ''Last 5 years average: 26.50'' @ [CHR 0xB0, CHR ''C'', CHR 0x0A] @
                    ''Rate of change: +25.0000'' @ [CHR 0xB0] @ ''C per year''],
                 error = None\<rparr>\<rparr>)"
proof -
  let ?s = "initial_state series_2023 moving_average ''''"
  have s: "data ?s = series_2023" "yearToPredict ?s = ''''" "selectedModel ?s = moving_average"
    by (simp_all add: initial_state_def)
  have "\<not> outOfRange series_2023 NaN"
    by (simp add: outOfRange_def js_gt_def series_2023_facts)
  then have "handleSimulation_try lib (?s\<lparr>loading := True\<rparr>) =
      Some (Inr (?s\<lparr>loading := True,
                    predictionLine := \<lparr>years = [''2024'', ''NaN''], temps = [Fin 27, NaN]\<rparr>,
                    result := Some \<lparr>prediction = NaN,
                      details = snd (projr (modelPrediction lib ?s)), error = None\<rparr>\<rparr>))"
    by (simp add: handleSimulation_try_def modelPrediction_loading modelPrediction_empty_year s
        generatePredictionLine_empty_year)
  then show ?thesis
    by (simp add: handleSimulation_proceed s parseInt_samples modelPrediction_empty_year)
       (simp add: initial_state_def)
qed

text \<open>A simulation of the last observed year itself ends in the \<^verbatim>\<open>catch\<close>: the
  prediction is in range, so the trend line is generated, with a zero step, and its loop
  raises.\<close>

lemma generatePredictionLine_last_year:
  "generatePredictionLine lib series_2023 ''2024'' p moving_average = Some (Inl RangeError)"
proof -
  have "\<exists>e. generatePredictionLine lib series_2023 ''2024'' p moving_average = Some (Inl e)
      \<and> (moving_average \<noteq> polynomial \<longrightarrow> e = RangeError)"
    by (rule generatePredictionLine_same_year [where t = 2024])
       (simp_all add: series_2023_facts parseInt_samples fl_numeral)
  then show ?thesis by auto
qed

lemma handleSimulation_last_year:
  "handleSimulation lib (initial_state series_2023 moving_average ''2024'') =
     Some ((initial_state series_2023 moving_average ''2024'')
             \<lparr>result := Some calculationErrorResult, loading := False\<rparr>)"
proof -
  let ?s = "initial_state series_2023 moving_average ''2024''"
  have s: "data ?s = series_2023" "yearToPredict ?s = ''2024''" "selectedModel ?s = moving_average"
    by (simp_all add: initial_state_def)
  have m: "mavg_prediction (calculateMovingAverage series_2023 ''2024'') = Fin (53 / 2)"
    by (simp add: calculateMovingAverage_def series_2023_facts parseInt_samples js_sub_def
      fl_numeral fl_dyadic_numeral)
  have r: "\<not> outOfRange series_2023 (Fin (53 / 2))"
    by (simp add: outOfRange_def js_gt_def series_2023_facts)
  have "handleSimulation_try lib (?s\<lparr>loading := True\<rparr>) = Some (Inl RangeError)"
    using m r
    by (simp add: handleSimulation_try_def modelPrediction_def s Let_def
        generatePredictionLine_last_year)
  then show ?thesis
    by (simp add: handleSimulation_proceed s parseInt_samples)
qed

text \<open>The simulation of 2028 on the two-record series is in range and stores a trend line
  of five points.\<close>

lemma movingAverage_series_2023:
  "mavg_prediction (calculateMovingAverage series_2023 input) =
     js_add (Fin (53 / 2)) (js_mul (Fin (1 / 4)) (js_sub (parseInt input) (Fin 2024)))"
  by (simp add: calculateMovingAverage_def series_2023_facts parseInt_samples)

lemma generatePredictionLine_2028:
  "generatePredictionLine lib series_2023 ''2028'' (Fin (55 / 2)) moving_average =
     Some (Inr \<lparr>years = [''2024'', ''2025'', ''2026'', ''2027'', ''2028''],
                temps = [Fin 27, Fin (107 / 4), Fin 27, Fin (109 / 4), Fin (55 / 2)]\<rparr>)"
proof -
  have step: "Math_ceil (js_div (js_sub (Fin 2028) (Fin 2024)) (Fin 5)) = Fin 1"
    using fl_certificate [of "- 1" "4 / 5" 7205759403792794]
    by (simp add: js_sub_def fl_numeral pow2_def ceiling_rat_numeral)
  have "predictionLoop lib series_2023 moving_average (Fin 2028) (Fin 1) (Fin 2025)
          \<lparr>years = [''2024''], temps = [Fin 27]\<rparr> =
        Some (Inr \<lparr>years = [''2024'', ''2025'', ''2026'', ''2027'', ''2028''],
                   temps = [Fin 27, Fin (107 / 4), Fin 27, Fin (109 / 4), Fin (55 / 2)]\<rparr>)"
    apply (subst predictionLoop.simps)
    apply (simp add: movingAverage_series_2023 parseInt_samples js_sub_def fl_numeral
        fl_dyadic_numeral print_eval push_def max_array_length_def)
    apply (subst predictionLoop.simps)
    apply (simp add: movingAverage_series_2023 parseInt_samples js_sub_def fl_numeral
        fl_dyadic_numeral print_eval push_def max_array_length_def)
    apply (subst predictionLoop.simps)
    apply (simp add: movingAverage_series_2023 parseInt_samples js_sub_def fl_numeral
        fl_dyadic_numeral print_eval push_def max_array_length_def)
    apply (subst predictionLoop.simps)
    apply (simp add: movingAverage_series_2023 parseInt_samples js_sub_def fl_numeral
        fl_dyadic_numeral print_eval push_def max_array_length_def)
    apply (subst predictionLoop.simps)
    apply (simp add: fl_numeral)
    done
  then show ?thesis
    by (simp add: generatePredictionLine_def series_2023_facts parseInt_samples step
        fl_numeral print_eval)
qed

lemma handleSimulation_2028:
  "handleSimulation lib (initial_state series_2023 moving_average ''2028'') = Some state_after_2028"
proof -
  let ?s = "initial_state series_2023 moving_average ''2028''"
  have s: "data ?s = series_2023" "yearToPredict ?s = ''2028''" "selectedModel ?s = moving_average"
    by (simp_all add: initial_state_def)
  have m: "calculateMovingAverage series_2023 ''2028'' =
     \<lparr>mavg_prediction = Fin (55 / 2),
      mavg_description = ''Based on 5-year moving average:'' @ [CHR 0x0A] @
        ''Last 5 years average: 26.50'' @ [CHR 0xB0, CHR ''C'', CHR 0x0A] @
        ''Rate of change: +25.0000'' @ [CHR 0xB0] @ ''C per year''\<rparr>"
    by (simp add: calculateMovingAverage_def series_2023_facts parseInt_samples js_sub_def
      js_gt_def fl_numeral fl_dyadic_numeral print_eval)
  have r: "\<not> outOfRange series_2023 (Fin (55 / 2))"
    by (simp add: outOfRange_def js_gt_def series_2023_facts)
  have "handleSimulation_try lib (?s\<lparr>loading := True\<rparr>) =
      Some (Inr (state_after_2028\<lparr>loading := True\<rparr>))"
    using r
    by (simp add: handleSimulation_try_def modelPrediction_def s m generatePredictionLine_2028
        print_eval state_after_2028_def)
  then show ?thesis
    by (simp add: handleSimulation_proceed s parseInt_samples)
       (simp add: state_after_2028_def initial_state_def)
qed

lemma modelPrediction_after_2028:
  "modelPrediction lib (state_after_2028\<lparr>yearToPredict := ''2040''\<rparr>) =
     Inr (Fin (61 / 2),
          [''Prediction Model: 5-Year Moving Average'', ''Target Year: 2040'',
           ''Predicted Temperature: 30.50'' @ [CHR 0xB0, CHR ''C''],
           ''Based on 5-year moving average:'' @ [CHR 0x0A] @
           ''Last 5 years average: 26.50'' @ [CHR 0xB0, CHR ''C'', CHR 0x0A] @
           ''Rate of change: +25.0000'' @ [CHR 0xB0] @ ''C per year''])"
  by (simp add: modelPrediction_def state_after_2028_def initial_state_def movingAverage_2040
      print_eval)

text \<open>On a window of five records the constant 4 of line 132 is the window size minus
  one.\<close>

lemma yearlyChange_five_records:
  assumes "length recentData = 5"
  shows "yearlyChange recentData =
    js_div (js_sub (five_year_smooth (recentData ! (length recentData - 1)))
                   (five_year_smooth (recentData ! 0)))
           (js_sub (Fin (of_nat (length recentData))) (Fin 1))"
  by (simp add: yearlyChange_def assms js_sub_def fl_numeral)

section \<open>The claims\<close>

text \<open>
  C1. The claim is that a target year equal to the last observed year gives a trend line
  of the single point of that year, the loop running zero times. The code does not do
  that: the step is \<open>ceil(0 / 5) = 0\<close>, the loop starts at the last observed year with
  its condition true and adds zero on every turn, pushing a point each time. For integer
  years of magnitude up to \<open>2 ^ 53\<close>, \<open>generatePredictionLine\<close> returns no line for
  either model: it raises, and with the moving-average model what it raises is the
  \<^verbatim>\<open>RangeError\<close> of \<^verbatim>\<open>push\<close>.
\<close>

theorem same_year_trend_line_raises:
  fixes L :: int
  assumes "length dat \<noteq> 0"
    and "parseInt (year (dat ! (length dat - 1))) = Fin (of_int L)"
    and "parseInt input = Fin (of_int L)"
    and "\<bar>L\<bar> \<le> 2 ^ 53"
  shows "(\<forall>line. generatePredictionLine lib dat input p mdl \<noteq> Some (Inr line))
       \<and> (\<exists>e. generatePredictionLine lib dat input p mdl = Some (Inl e))
       \<and> generatePredictionLine lib dat input p moving_average = Some (Inl RangeError)"
proof -
  note same = generatePredictionLine_same_year [OF assms(1-3) fl_of_int [OF assms(4)]]
  from same [of lib p mdl]
  obtain e where e: "generatePredictionLine lib dat input p mdl = Some (Inl e)" by blast
  from same [of lib p moving_average]
  have "generatePredictionLine lib dat input p moving_average = Some (Inl RangeError)" by auto
  with e show ?thesis by simp
qed

theorem same_year_trend_line_raises_witness:
  "length series_2023 \<noteq> 0
   \<and> parseInt (year (series_2023 ! (length series_2023 - 1))) = Fin 2024
   \<and> parseInt ''2024'' = Fin 2024
   \<and> (\<forall>line. generatePredictionLine constant_regression series_2023 ''2024'' (Fin (53 / 2))
                 polynomial \<noteq> Some (Inr line))
   \<and> (\<exists>e. generatePredictionLine constant_regression series_2023 ''2024'' (Fin (53 / 2))
              polynomial = Some (Inl e))
   \<and> generatePredictionLine constant_regression series_2023 ''2024'' (Fin (53 / 2))
        moving_average = Some (Inl RangeError)"
  using same_year_trend_line_raises
    [of series_2023 2024 "''2024''" constant_regression "Fin (53 / 2)" polynomial]
  by (simp add: series_2023_facts parseInt_samples)

text \<open>
  C2. The claim is that the yearly change is the difference of the last and the first
  smoothed value of the window divided by the window size minus one. The code divides by
  the constant 4 (\<open>4 intervals in 5 years\<close>), which is that quotient only for a window
  of five records. On the two-record series the code gives \<open>(27 - 26) / 4 = 0.25\<close>,
  the claimed formula \<open>(27 - 26) / (2 - 1) = 1\<close>.
\<close>

theorem yearlyChange_short_window:
  "yearlyChange (drop (length series_2023 - 5) series_2023) = Fin (1 / 4)
   \<and> js_div (js_sub (Fin 27) (Fin 26)) (js_sub (Fin (of_nat (length series_2023))) (Fin 1))
       = Fin 1"
  by (simp add: series_2023_facts) (simp add: series_2023_def js_sub_def fl_numeral)

text \<open>
  C3. When the year check passes and the prediction of the selected model lies outside
  the allowed range, \<open>handleSimulation\<close> returns with the prediction, the explanation
  and the warning stored as the result. The trend line is not computed: the run returns
  this state whatever \<open>generatePredictionLine\<close> would do on the same inputs, also where
  it would raise.
\<close>

theorem out_of_range_returns_warning:
  assumes "\<not> js_lt (parseInt (yearToPredict s)) (Fin 2024)"
    and "modelPrediction lib s = Inr (p, ds)"
    and "outOfRange (data s) p"
  shows "handleSimulation lib s =
    Some (s\<lparr>result := Some \<lparr>prediction = p, details = ds,
                                error = Some (rangeWarning (data s) p)\<rparr>,
            loading := False\<rparr>)"
  using handleSimulation_out_of_range [OF assms] by (simp add: warningResult_def)

theorem out_of_range_returns_warning_witness:
  "\<not> js_lt (parseInt (yearToPredict (initial_state series_2024 moving_average ''2024''))) (Fin 2024)
   \<and> fst (projr (modelPrediction constant_regression
                   (initial_state series_2024 moving_average ''2024''))) = Fin 30
   \<and> outOfRange (data (initial_state series_2024 moving_average ''2024'')) (Fin 30)
   \<and> generatePredictionLine constant_regression series_2024 ''2024'' (Fin 30) moving_average
       = Some (Inl RangeError)
   \<and> handleSimulation constant_regression (initial_state series_2024 moving_average ''2024'') =
       Some ((initial_state series_2024 moving_average ''2024'')
         \<lparr>result := Some
            \<lparr>prediction = Fin 30,
             details =
               [''Prediction Model: 5-Year Moving Average'', ''Target Year: 2024'',
                ''Predicted Temperature: 30.00'' @ [CHR 0xB0, CHR ''C''],
                ''Based on 5-year moving average:'' @ [CHR 0x0A] @
                ''Last 5 years average: 30.00'' @ [CHR 0xB0, CHR ''C'', CHR 0x0A] @
                ''Rate of change: 0.0000'' @ [CHR 0xB0] @ ''C per year''],
             error = Some (rangeWarning series_2024 (Fin 30))\<rparr>,
          loading := False\<rparr>)"
proof -
  let ?s = "initial_state series_2024 moving_average ''2024''"
  have s: "data ?s = series_2024" "yearToPredict ?s = ''2024''" by (simp_all add: initial_state_def)
  have a: "\<not> js_lt (parseInt (yearToPredict ?s)) (Fin 2024)" by (simp add: s parseInt_samples)
  have c: "outOfRange (data ?s) (Fin 30)"
    by (simp add: s outOfRange_def js_gt_def series_2024_facts)
  have "\<exists>e. generatePredictionLine constant_regression series_2024 ''2024'' (Fin 30)
        moving_average = Some (Inl e) \<and> (moving_average \<noteq> polynomial \<longrightarrow> e = RangeError)"
    by (rule generatePredictionLine_same_year [where t = 2024])
       (simp_all add: series_2024_facts parseInt_samples fl_numeral)
  then have d: "generatePredictionLine constant_regression series_2024 ''2024'' (Fin 30)
      moving_average = Some (Inl RangeError)"
    by auto
  from out_of_range_returns_warning [OF a modelPrediction_2024 c] a c d
  show ?thesis by (simp add: modelPrediction_2024 s)
qed

text \<open>
  C4. For a non-empty series whose last year and target year are integers with the
  target the greater (calendar years: of magnitude up to \<open>2 ^ 51\<close>, where the year
  arithmetic is exact), \<open>generatePredictionLine\<close> returns a line whose first label is
  the last observed year and whose last label is the target year, as \<open>toString\<close> prints
  them, whatever the step. For the polynomial model the regression package is taken to
  return the three coefficients of a quadratic.
\<close>

theorem trend_line_endpoints:
  fixes L T :: int
  assumes "length dat \<noteq> 0"
    and "parseInt (year (dat ! (length dat - 1))) = Fin (of_int L)"
    and "parseInt input = Fin (of_int T)"
    and "L < T" and "- (2 ^ 51) \<le> L" and "T \<le> 2 ^ 51"
    and "mdl = polynomial \<longrightarrow> (\<forall>pts. 3 \<le> length (reg_equation (lib pts 2 8)))"
  shows "\<exists>line. generatePredictionLine lib dat input p mdl = Some (Inr line)
           \<and> years line \<noteq> []
           \<and> hd (years line) = toString (Fin (of_int L))
           \<and> last (years line) = toString (Fin (of_int T))"
  using assms by (rule generatePredictionLine_returns)

theorem trend_line_endpoints_witness:
  "(\<exists>line. generatePredictionLine constant_regression series_2018 ''2030'' (Fin 28) moving_average
            = Some (Inr line)
         \<and> years line \<noteq> [] \<and> hd (years line) = ''2022'' \<and> last (years line) = ''2030'')
   \<and> (\<exists>line. generatePredictionLine constant_regression series_2018 ''2030'' (Fin 27) polynomial
            = Some (Inr line)
         \<and> years line \<noteq> [] \<and> hd (years line) = ''2022'' \<and> last (years line) = ''2030'')"
  using trend_line_endpoints
      [of series_2018 2022 "''2030''" 2030 moving_average constant_regression "Fin 28"]
    trend_line_endpoints
      [of series_2018 2022 "''2030''" 2030 polynomial constant_regression "Fin 27"]
  by (simp add: series_2018_facts parseInt_samples constant_regression_def print_eval)

text \<open>
  C5. On the series of the specification's example and the target year 2030 the
  moving-average predictor computes, in binary64: the average exactly the value of the
  literal \<open>26.4\<close>; the yearly change \<open>(26.8 - 26.0) / 4\<close>, which is
  \<open>0.20000000000000018\<close>, within \<open>1e-15\<close> of \<open>0.2\<close>; and the prediction exactly 28.
\<close>

theorem moving_average_example:
  "avgTemp (drop (length series_2018 - 5) series_2018) = fl (264 / 10)
   \<and> yearlyChange (drop (length series_2018 - 5) series_2018)
       = Fin (225179981368525 / 1125899906842624)
   \<and> \<bar>225179981368525 / 1125899906842624 - 2 / 10\<bar> < (1 / 10 ^ 15 :: rat)
   \<and> mavg_prediction (calculateMovingAverage series_2018 ''2030'') = Fin 28"
  by (simp add: calculateMovingAverage_def series_2018_facts parseInt_samples
      js_sub_def fl_numeral series_2018_roundings)

text \<open>The yearly change of the example is not \<open>0.2\<close>: neither the binary64 value of that
  literal nor the rational.\<close>

theorem yearly_change_example_inexact:
  "yearlyChange (drop (length series_2018 - 5) series_2018) \<noteq> fl (2 / 10)
   \<and> yearlyChange (drop (length series_2018 - 5) series_2018) \<noteq> Fin (2 / 10)"
  using fl_certificate [of "- 3" "1 / 5" 7205759403792794]
  by (simp add: series_2018_facts pow2_def)

text \<open>
  C6. When the year input parses to a number below 2024, \<open>handleSimulation\<close> returns at
  once: the stored result is the prediction 0 with the detail \<open>Invalid year selected\<close>
  and the error message, \<open>loading\<close> is false, and nothing else of the state changes.
  The result holds for every series and every regression package, so no model, range or
  trend-line computation takes part in it.
\<close>

theorem invalid_year_rejected:
  assumes "js_lt (parseInt (yearToPredict s)) (Fin 2024)"
  shows "handleSimulation lib s =
    Some (s\<lparr>result := Some \<lparr>prediction = Fin 0, details = [''Invalid year selected''],
                 error = Some ''Please select a year from 2024 onwards for predictions.''\<rparr>,
            loading := False\<rparr>)"
  using handleSimulation_reject [OF assms] by (simp add: invalidYearResult_def)

theorem invalid_year_rejected_witness:
  "js_lt (parseInt (yearToPredict (initial_state series_2023 moving_average ''2020''))) (Fin 2024)
   \<and> handleSimulation constant_regression (initial_state series_2023 moving_average ''2020'') =
       Some ((initial_state series_2023 moving_average ''2020'')
              \<lparr>result := Some \<lparr>prediction = Fin 0, details = [''Invalid year selected''],
                 error = Some ''Please select a year from 2024 onwards for predictions.''\<rparr>,
               loading := False\<rparr>)"
  using invalid_year_rejected [of "initial_state series_2023 moving_average ''2020''"
      constant_regression]
  by (simp add: initial_state_def parseInt_samples)

text \<open>
  C7. On a non-empty series a prediction equal to the allowed maximum (the maximum of
  \<open>annual_mean\<close> plus 1.5, as the code computes it) is in range and a greater one is
  out of range; a prediction equal to the allowed minimum is in range and a smaller one
  is out of range.
\<close>

theorem range_boundaries:
  assumes "dat \<noteq> []"
  shows "(js_eq p (allowedMax dat) \<longrightarrow> \<not> outOfRange dat p)
       \<and> (js_gt p (allowedMax dat) \<longrightarrow> outOfRange dat p)
       \<and> (js_eq p (allowedMin dat) \<longrightarrow> \<not> outOfRange dat p)
       \<and> (js_lt p (allowedMin dat) \<longrightarrow> outOfRange dat p)"
proof (intro conjI impI)
  assume e: "js_eq p (allowedMax dat)"
  then have p: "p = allowedMax dat" "allowedMax dat \<noteq> NaN"
    by (cases p; cases "allowedMax dat"; simp)+
  from allowed_range_order [OF assms] p(2) have "js_le (allowedMin dat) (allowedMax dat)" by simp
  then have "\<not> js_lt (allowedMax dat) (allowedMin dat)"
    by (cases "allowedMin dat"; cases "allowedMax dat") simp_all
  then show "\<not> outOfRange dat p" by (simp add: outOfRange_def js_gt_def p(1) js_lt_irrefl)
next
  assume e: "js_eq p (allowedMin dat)"
  then have p: "p = allowedMin dat" "allowedMin dat \<noteq> NaN"
    by (cases p; cases "allowedMin dat"; simp)+
  from allowed_range_order [OF assms] p(2) have "js_le (allowedMin dat) (allowedMax dat)" by simp
  then have "\<not> js_lt (allowedMax dat) (allowedMin dat)"
    by (cases "allowedMin dat"; cases "allowedMax dat") simp_all
  then show "\<not> outOfRange dat p" by (simp add: outOfRange_def js_gt_def p(1) js_lt_irrefl)
qed (simp_all add: outOfRange_def)

theorem range_boundaries_witness:
  "series_2023 \<noteq> []
   \<and> js_eq (Fin (57 / 2)) (allowedMax series_2023) \<and> \<not> outOfRange series_2023 (Fin (57 / 2))
   \<and> js_gt (Fin (57001 / 2000)) (allowedMax series_2023)
   \<and> outOfRange series_2023 (Fin (57001 / 2000))
   \<and> js_eq (Fin (49 / 2)) (allowedMin series_2023) \<and> \<not> outOfRange series_2023 (Fin (49 / 2))
   \<and> js_lt (Fin (48999 / 2000)) (allowedMin series_2023)
   \<and> outOfRange series_2023 (Fin (48999 / 2000))"
  using range_boundaries [of series_2023 "Fin (57 / 2)"]
    range_boundaries [of series_2023 "Fin (57001 / 2000)"]
    range_boundaries [of series_2023 "Fin (49 / 2)"]
    range_boundaries [of series_2023 "Fin (48999 / 2000)"]
  by (simp add: series_2023_facts js_gt_def)

text \<open>
  C8. On the empty series both predictors return their zero result, whatever the target
  year and whatever the regression package: the polynomial predictor the prediction 0, the
  empty equation and R2 0, the moving-average predictor the prediction 0 and the empty
  description. Neither raises (the polynomial predictor's result is an \<open>Inr\<close>).
\<close>

theorem empty_series_predictors:
  "calculatePolynomialRegression lib [] targetYear
     = Inr \<lparr>poly_prediction = Fin 0, poly_equation = [], poly_r2 = Fin 0\<rparr>
   \<and> calculateMovingAverage [] targetYear = \<lparr>mavg_prediction = Fin 0, mavg_description = []\<rparr>"
  by (simp add: calculatePolynomialRegression_def calculateMovingAverage_def)

text \<open>
  C9. \<open>handleSimulation\<close> stores the invalid-year result exactly when the parsed year
  input is a number below 2024. An input that does not parse (\<open>parseInt\<close> gives
  \<open>NaN\<close>) is not rejected: the run is the \<open>try\<close> block on that input, with its
  \<open>catch\<close> and \<open>finally\<close>.
\<close>

theorem unparseable_year_not_rejected:
  "(handleSimulation lib s = Some (s\<lparr>result := Some invalidYearResult, loading := False\<rparr>))
     = js_lt (parseInt (yearToPredict s)) (Fin 2024)
   \<and> (parseInt (yearToPredict s) = NaN \<longrightarrow>
        handleSimulation lib s =
          (case handleSimulation_try lib (s\<lparr>loading := True\<rparr>) of
             None \<Rightarrow> None
           | Some (Inl e) \<Rightarrow>
               Some (s\<lparr>loading := True, result := Some calculationErrorResult, loading := False\<rparr>)
           | Some (Inr s') \<Rightarrow> Some (s'\<lparr>loading := False\<rparr>)))"
proof (intro conjI impI)
  show "(handleSimulation lib s = Some (s\<lparr>result := Some invalidYearResult, loading := False\<rparr>))
     = js_lt (parseInt (yearToPredict s)) (Fin 2024)"
    using handleSimulation_reject [of s lib] handleSimulation_not_rejected [of s lib] by blast
next
  assume "parseInt (yearToPredict s) = NaN"
  then have "\<not> js_lt (parseInt (yearToPredict s)) (Fin 2024)" by simp
  then show "handleSimulation lib s =
          (case handleSimulation_try lib (s\<lparr>loading := True\<rparr>) of
             None \<Rightarrow> None
           | Some (Inl e) \<Rightarrow>
               Some (s\<lparr>loading := True, result := Some calculationErrorResult, loading := False\<rparr>)
           | Some (Inr s') \<Rightarrow> Some (s'\<lparr>loading := False\<rparr>))"
    by (rule handleSimulation_proceed)
qed

theorem unparseable_year_not_rejected_witness:
  "parseInt (yearToPredict (initial_state series_2023 moving_average '''')) = NaN
   \<and> handleSimulation constant_regression (initial_state series_2023 moving_average '''')
       \<noteq> Some ((initial_state series_2023 moving_average '''')
                 \<lparr>result := Some invalidYearResult, loading := False\<rparr>)
   \<and> handleSimulation constant_regression (initial_state series_2023 moving_average '''') =
       (case handleSimulation_try constant_regression
               ((initial_state series_2023 moving_average '''')\<lparr>loading := True\<rparr>) of
          None \<Rightarrow> None
        | Some (Inl e) \<Rightarrow>
            Some ((initial_state series_2023 moving_average '''')
                    \<lparr>loading := True, result := Some calculationErrorResult, loading := False\<rparr>)
        | Some (Inr s') \<Rightarrow> Some (s'\<lparr>loading := False\<rparr>))
   \<and> map_option predictionLine
        (handleSimulation constant_regression (initial_state series_2023 moving_average ''''))
       = Some \<lparr>years = [''2024'', ''NaN''], temps = [Fin 27, NaN]\<rparr>"
proof -
  let ?s = "initial_state series_2023 moving_average ''''"
  have n: "parseInt (yearToPredict ?s) = NaN" by (simp add: initial_state_def parseInt_samples)
  have l: "\<not> js_lt (parseInt (yearToPredict ?s)) (Fin 2024)" by (simp add: n)
  from unparseable_year_not_rejected [of constant_regression ?s] n l
  have a: "handleSimulation constant_regression ?s
       \<noteq> Some (?s\<lparr>result := Some invalidYearResult, loading := False\<rparr>)"
    and b: "handleSimulation constant_regression ?s =
       (case handleSimulation_try constant_regression (?s\<lparr>loading := True\<rparr>) of
          None \<Rightarrow> None
        | Some (Inl e) \<Rightarrow>
            Some (?s\<lparr>loading := True, result := Some calculationErrorResult, loading := False\<rparr>)
        | Some (Inr s') \<Rightarrow> Some (s'\<lparr>loading := False\<rparr>))"
    by blast+
  have c: "map_option predictionLine (handleSimulation constant_regression ?s)
       = Some \<lparr>years = [''2024'', ''NaN''], temps = [Fin 27, NaN]\<rparr>"
    by (simp add: handleSimulation_empty_year)
  from n a b c show ?thesis by (intro conjI)
qed

text \<open>
  C10. On the out-of-range branch the stored trend line is the one the state held before
  the run, next to the new warning result.
\<close>

theorem out_of_range_keeps_trend_line:
  assumes "\<not> js_lt (parseInt (yearToPredict s)) (Fin 2024)"
    and "modelPrediction lib s = Inr (p, ds)"
    and "outOfRange (data s) p"
  shows "\<exists>s'. handleSimulation lib s = Some s' \<and> predictionLine s' = predictionLine s
           \<and> result s' = Some (warningResult (data s) p ds)"
  using handleSimulation_out_of_range [OF assms] by simp

theorem out_of_range_keeps_trend_line_witness:
  "handleSimulation constant_regression (initial_state series_2023 moving_average ''2028'')
     = Some state_after_2028
   \<and> \<not> js_lt (parseInt (yearToPredict (state_after_2028\<lparr>yearToPredict := ''2040''\<rparr>))) (Fin 2024)
   \<and> outOfRange (data (state_after_2028\<lparr>yearToPredict := ''2040''\<rparr>)) (Fin (61 / 2))
   \<and> (\<exists>s'. handleSimulation constant_regression (state_after_2028\<lparr>yearToPredict := ''2040''\<rparr>)
             = Some s'
          \<and> predictionLine s' =
              \<lparr>years = [''2024'', ''2025'', ''2026'', ''2027'', ''2028''],
               temps = [Fin 27, Fin (107 / 4), Fin 27, Fin (109 / 4), Fin (55 / 2)]\<rparr>
          \<and> map_option prediction (result s') = Some (Fin (61 / 2))
          \<and> map_option error (result s')
              = Some (Some (rangeWarning series_2023 (Fin (61 / 2)))))"
proof -
  let ?s = "state_after_2028\<lparr>yearToPredict := ''2040''\<rparr>"
  have s: "data ?s = series_2023" "yearToPredict ?s = ''2040''"
    "predictionLine ?s = \<lparr>years = [''2024'', ''2025'', ''2026'', ''2027'', ''2028''],
               temps = [Fin 27, Fin (107 / 4), Fin 27, Fin (109 / 4), Fin (55 / 2)]\<rparr>"
    by (simp_all add: state_after_2028_def initial_state_def)
  have a: "\<not> js_lt (parseInt (yearToPredict ?s)) (Fin 2024)" by (simp add: s parseInt_samples)
  have c: "outOfRange (data ?s) (Fin (61 / 2))"
    by (simp add: s outOfRange_def js_gt_def series_2023_facts)
  from out_of_range_keeps_trend_line
    [where lib = constant_regression, OF a modelPrediction_after_2028 c]
  obtain s' where s': "handleSimulation constant_regression ?s = Some s'"
    "predictionLine s' = predictionLine ?s"
    "result s' = Some (warningResult (data ?s) (Fin (61 / 2))
       [''Prediction Model: 5-Year Moving Average'', ''Target Year: 2040'',
        ''Predicted Temperature: 30.50'' @ [CHR 0xB0, CHR ''C''],
        ''Based on 5-year moving average:'' @ [CHR 0x0A] @
        ''Last 5 years average: 26.50'' @ [CHR 0xB0, CHR ''C'', CHR 0x0A] @
        ''Rate of change: +25.0000'' @ [CHR 0xB0] @ ''C per year''])"
    by blast
  have e: "\<exists>s'. handleSimulation constant_regression ?s = Some s'
          \<and> predictionLine s' =
              \<lparr>years = [''2024'', ''2025'', ''2026'', ''2027'', ''2028''],
               temps = [Fin 27, Fin (107 / 4), Fin 27, Fin (109 / 4), Fin (55 / 2)]\<rparr>
          \<and> map_option prediction (result s') = Some (Fin (61 / 2))
          \<and> map_option error (result s')
              = Some (Some (rangeWarning series_2023 (Fin (61 / 2))))"
    by (rule exI [of _ s']) (simp add: s' s warningResult_def)
  from handleSimulation_2028 [of constant_regression] a c e show ?thesis by (intro conjI)
qed

end
